theory Spec2Isabelle
  imports Complex_Main "HOL-Library.Sublist"
begin

section \<open>Python values used by the pipeline\<close>

text \<open>
  The two scripts \<^verbatim>\<open>backend/main.py\<close> and \<^verbatim>\<open>backend/run.py\<close> drive two external
  programs. An exception is a value of \<open>error\<close>; a function that may raise returns
  \<open>error + 'a\<close> with \<open>Inl\<close> for the raised exception. Text is a \<open>string\<close>, one
  \<open>char\<close> for each code point below 256; a code point above 255 is written as the bytes
  of its UTF-8 form (\<open>wide\<close>). \<open>FileNotFoundError p\<close> is the error \<^verbatim>\<open>stat\<close> raises for
  the path \<open>p\<close>.
\<close>

datatype error =
    RuntimeError string
  | SystemExit string
  | CalledProcessError int "string list"
  | FileNotFoundError string

definition wide :: "nat \<Rightarrow> string" where
  "wide n =
     (if n < 2048
      then [char_of (192 + n div 64), char_of (128 + n mod 64)]
      else [char_of (224 + n div 4096), char_of (128 + (n div 64) mod 64),
            char_of (128 + n mod 64)])"

text \<open>\<^verbatim>\<open>str(n)\<close> for an integer, as an f-string renders a return code.\<close>

definition digit_char :: "nat \<Rightarrow> char" where
  "digit_char d = char_of (48 + d)"

fun str_nat :: "nat \<Rightarrow> string" where
  "str_nat n = (if n < 10 then [digit_char n] else str_nat (n div 10) @ [digit_char (n mod 10)])"

declare str_nat.simps [simp del]

definition str_int :: "int \<Rightarrow> string" where
  "str_int i = (if i < 0 then CHR ''-'' # str_nat (nat (- i)) else str_nat (nat i))"

text \<open>\<^verbatim>\<open>sep.join(xs)\<close>.\<close>

fun join :: "string \<Rightarrow> string list \<Rightarrow> string" where
  "join sep [] = []"
| "join sep [x] = x"
| "join sep (x # y # ys) = x @ sep @ join sep (y # ys)"

text \<open>
  \<^verbatim>\<open>str.strip()\<close> removes the white space of Python's \<^verbatim>\<open>str.isspace\<close> from both ends;
  \<^verbatim>\<open>str.strip(chars)\<close> removes the characters of \<open>chars\<close>.
\<close>

definition is_space :: "char \<Rightarrow> bool" where
  "is_space c = (c \<in> set [CHR 0x09, CHR 0x0A, CHR 0x0B, CHR 0x0C, CHR 0x0D,
                            CHR 0x1C, CHR 0x1D, CHR 0x1E, CHR 0x1F, CHR 0x20, CHR 0x85, CHR 0xA0])"

definition strip_where :: "(char \<Rightarrow> bool) \<Rightarrow> string \<Rightarrow> string" where
  "strip_where P s = rev (dropWhile P (rev (dropWhile P s)))"

definition strip :: "string \<Rightarrow> string" where
  "strip s = strip_where is_space s"

definition strip_chars :: "string \<Rightarrow> string \<Rightarrow> string" where
  "strip_chars chars s = strip_where (\<lambda>c. c \<in> set chars) s"

section \<open>The file system and external processes\<close>

text \<open>
  What the scripts read from the file system: \<open>listing fs d\<close> is the enumeration
  \<^verbatim>\<open>d.rglob("*")\<close> of every path below the directory \<open>d\<close>, in the order the
  operating system yields it; \<open>st_mtime fs p\<close> is \<^verbatim>\<open>p.stat().st_mtime\<close>, a finite
  double, taken as the rational it denotes (the comparison is the same), and \<open>None\<close>
  when \<^verbatim>\<open>p.stat()\<close> raises \<^verbatim>\<open>FileNotFoundError\<close> (an enumerated path without a target,
  such as a dangling symbolic link); \<open>path_exists fs p\<close> is \<^verbatim>\<open>p.exists()\<close>; \<open>read_text fs p\<close> is the decoded text of an
  existing file. Paths are resolved strings with \<^verbatim>\<open>/\<close> as separator.
\<close>

record fs =
  listing :: "string \<Rightarrow> string list"
  st_mtime :: "string \<Rightarrow> rat option"
  path_exists :: "string \<Rightarrow> bool"
  read_text :: "string \<Rightarrow> string"

definition path_name :: "string \<Rightarrow> string" where
  "path_name p = rev (takeWhile (\<lambda>c. c \<noteq> CHR ''/'') (rev p))"

definition path_parent :: "string \<Rightarrow> string" where
  "path_parent p =
     (let d = rev (drop 1 (dropWhile (\<lambda>c. c \<noteq> CHR ''/'') (rev p)))
      in if d = [] then ''/'' else d)"

definition path_join :: "string \<Rightarrow> string \<Rightarrow> string" where
  "path_join d n = d @ ''/'' @ n"

text \<open>
  \<open>rglob fs d ext\<close> is \<^verbatim>\<open>d.rglob("*" + ext)\<close>: the paths below \<open>d\<close> whose last
  component ends with \<open>ext\<close>, in enumeration order. The pattern \<^verbatim>\<open>*\<close> alone is
  \<open>ext = []\<close>. Every kind of directory entry is matched by its name alone.
\<close>

definition rglob :: "fs \<Rightarrow> string \<Rightarrow> string \<Rightarrow> string list" where
  "rglob fs d ext = filter (\<lambda>p. suffix ext (path_name p)) (listing fs d)"

text \<open>The key of the two lookups, \<^verbatim>\<open>lambda p: p.stat().st_mtime\<close>.\<close>

definition stat_mtime :: "fs \<Rightarrow> string \<Rightarrow> error + rat" where
  "stat_mtime fs p = (case st_mtime fs p of None \<Rightarrow> Inl (FileNotFoundError p) | Some t \<Rightarrow> Inr t)"

text \<open>
  \<^verbatim>\<open>max(xs, key=k)\<close> on a list with first element \<open>c\<close>: the key of every element is
  computed once, in order, and the first key that raises ends the call; the running
  maximum \<open>best\<close> with key \<open>kb\<close> is replaced only by a strictly greater key.
\<close>

fun py_max_from :: "('a \<Rightarrow> error + rat) \<Rightarrow> 'a \<Rightarrow> rat \<Rightarrow> 'a list \<Rightarrow> error + 'a" where
  "py_max_from k best kb [] = Inr best"
| "py_max_from k best kb (x # xs) =
     (case k x of
        Inl e \<Rightarrow> Inl e
      | Inr kx \<Rightarrow> if kx > kb then py_max_from k x kx xs else py_max_from k best kb xs)"

definition py_max :: "('a \<Rightarrow> error + rat) \<Rightarrow> 'a \<Rightarrow> 'a list \<Rightarrow> error + 'a" where
  "py_max k c cs = (case k c of Inl e \<Rightarrow> Inl e | Inr kc \<Rightarrow> py_max_from k c kc cs)"

section \<open>Artifact Locator (\<^verbatim>\<open>main.py\<close>, lines 38 to 57)\<close>

text \<open>Lines 39 to 43: the list \<^verbatim>\<open>candidates\<close>.\<close>

definition candidates :: "fs \<Rightarrow> string \<Rightarrow> string list" where
  "candidates fs out_dir =
     rglob fs out_dir ''.mxl'' @ rglob fs out_dir ''.musicxml'' @ rglob fs out_dir ''.xml''"

definition newest_export :: "fs \<Rightarrow> string \<Rightarrow> error + string" where
  "newest_export fs out_dir =
     (case candidates fs out_dir of
        [] \<Rightarrow> Inl (RuntimeError (''No MusicXML export found under: '' @ out_dir))
      | c # cs \<Rightarrow> py_max (stat_mtime fs) c cs)"

definition newest_omr_book :: "fs \<Rightarrow> string \<Rightarrow> error + string" where
  "newest_omr_book fs out_dir =
     (let books = rglob fs out_dir ''.omr''
      in case books of
           [] \<Rightarrow>
             (let created = rglob fs out_dir [];
                  sample = join ''\<newline>'' (take 120 created)
              in Inl (RuntimeError (''No .omr book found under: '' @ out_dir
                                    @ ''\<newline>Created files:\<newline>'' @ sample)))
         | b # bs \<Rightarrow> py_max (stat_mtime fs) b bs)"

text \<open>The extensions the export lookup recognises, as the specification names them.\<close>

definition recognized :: "string \<Rightarrow> bool" where
  "recognized p = (suffix ''.mxl'' (path_name p) \<or> suffix ''.musicxml'' (path_name p)
                   \<or> suffix ''.xml'' (path_name p))"

section \<open>Process Invoker (\<^verbatim>\<open>main.py\<close>, lines 12 to 34)\<close>

text \<open>
  A finished child process: its return code and its decoded output streams (decoding
  with \<^verbatim>\<open>errors="replace"\<close> never fails; an empty stream is the empty text). The
  operating system is the parameter \<open>tool\<close>: given the command vector, the working
  directory and the file system, it yields the finished process and the file system the
  process leaves behind.
\<close>

record proc =
  returncode :: int
  stdout :: string
  stderr :: string

type_synonym tool = "string list \<Rightarrow> string option \<Rightarrow> fs \<Rightarrow> proc \<times> fs"

text \<open>The job handed to the notation editor, before \<^verbatim>\<open>json.dumps\<close> serialises it.\<close>

record job =
  job_in :: string
  job_plugin :: string
  job_out :: "string list"

text \<open>
  What a script does to the outside world, in order: directories made, the temporary
  workspace created and removed, child processes run (command, working directory, return
  code) and the job file written. Each \<^verbatim>\<open>print\<close> call appends its text to \<open>console\<close>.
\<close>

datatype event =
    Mkdir string
  | MkTemp string
  | Ran "string list" "string option" int
  | WroteJob string job
  | RmTemp string

record state =
  fsys :: fs
  console :: "string list"
  trace :: "event list"

definition py_print :: "string \<Rightarrow> state \<Rightarrow> state" where
  "py_print t s = s\<lparr>console := console s @ [t]\<rparr>"

definition emit :: "event \<Rightarrow> state \<Rightarrow> state" where
  "emit ev s = s\<lparr>trace := trace s @ [ev]\<rparr>"

definition run_cmd :: "tool \<Rightarrow> string list \<Rightarrow> string option \<Rightarrow> state \<Rightarrow> (error + unit) \<times> state" where
  "run_cmd tool cmd cwd s =
     (let s1 = py_print (''\<newline>[RUN] '' @ join '' '' cmd) s;
          p = fst (tool cmd cwd (fsys s1));
          s2 = emit (Ran cmd cwd (returncode p)) (s1\<lparr>fsys := snd (tool cmd cwd (fsys s1))\<rparr>);
          s3 = (if strip (stdout p) \<noteq> [] then py_print (''[STDOUT]\<newline>'' @ stdout p) s2 else s2);
          s4 = (if strip (stderr p) \<noteq> [] then py_print (''[STDERR]\<newline>'' @ stderr p) s3 else s3)
      in if returncode p \<noteq> 0
         then (Inl (RuntimeError (''Command failed with exit code '' @ str_int (returncode p))), s4)
         else (Inr (), s4))"

section \<open>Job Spec Builder (\<^verbatim>\<open>main.py\<close>, lines 61 to 69)\<close>

definition build_job_json :: "string \<Rightarrow> string \<Rightarrow> string \<Rightarrow> string \<Rightarrow> string \<Rightarrow> state \<Rightarrow> state" where
  "build_job_json job_path score_in out_mxl out_pdf plugin_qml s =
     emit (WroteJob job_path
             \<lparr>job_in = score_in, job_plugin = plugin_qml, job_out = [out_mxl, out_pdf]\<rparr>) s"

section \<open>OMR Export Strategy and Pipeline Controller (\<^verbatim>\<open>main.py\<close>, lines 72 to 161)\<close>

text \<open>
  The controller's own writes (directories, the job file, the workspace) are recorded in
  the trace and leave \<open>fsys\<close> as it is: every read that follows one of them also follows
  a child process, and the file system that process leaves is given by \<open>tool\<close>. The
  workspace \<open>tmp\<close> is a fresh directory, created after the parents of the two output
  paths exist, so removing it does not touch the output paths. Failures of the operating
  system on these writes are outside the model.
\<close>

text \<open>The parsed command line, every path already resolved.\<close>

record args =
  pdf_in :: string
  out_mxl :: string
  out_pdf :: string
  audiveris_exe :: string
  musescore_exe :: string
  plugin_qml :: string
  force :: bool
  no_opus :: bool

definition aud_cmd_1 :: "args \<Rightarrow> string \<Rightarrow> string list" where
  "aud_cmd_1 a aud_out =
     [audiveris_exe a, ''-batch'', ''-transcribe'', ''-output'', aud_out]
     @ (if force a then [''-force''] else [])
     @ [pdf_in a]"

definition aud_cmd_2 :: "args \<Rightarrow> string \<Rightarrow> string \<Rightarrow> string list" where
  "aud_cmd_2 a aud_out book =
     [audiveris_exe a, ''-batch'', ''-export'', ''-output'', aud_out]
     @ (if \<not> no_opus a then [''-option'', ''org.audiveris.omr.sheet.BookManager.useOpus=true''] else [])
     @ [book]"

text \<open>
  Lines 108 to 144. The \<^verbatim>\<open>try\<close> block holds the first export lookup only; its handler
  catches \<^verbatim>\<open>RuntimeError\<close> and runs the second pass; any other exception of the lookup
  leaves the block uncaught.
\<close>

definition second_pass :: "tool \<Rightarrow> args \<Rightarrow> string \<Rightarrow> state \<Rightarrow> (error + string) \<times> state" where
  "second_pass tool a aud_out s1 =
     (case newest_omr_book (fsys s1) aud_out of
        Inl e \<Rightarrow> (Inl e, s1)
      | Inr book \<Rightarrow>
          (case run_cmd tool (aud_cmd_2 a aud_out book) None
                  (py_print (''[INFO] Audiveris book found: '' @ book) s1) of
             (Inl e, s3) \<Rightarrow> (Inl e, s3)
           | (Inr u, s3) \<Rightarrow>
               (case newest_export (fsys s3) aud_out of
                  Inl e \<Rightarrow> (Inl e, s3)
                | Inr exported \<Rightarrow>
                    (Inr exported,
                     py_print (''[INFO] Audiveris export (two-pass): '' @ exported) s3))))"

definition omr_export :: "tool \<Rightarrow> args \<Rightarrow> string \<Rightarrow> state \<Rightarrow> (error + string) \<times> state" where
  "omr_export tool a aud_out s =
     (case run_cmd tool (aud_cmd_1 a aud_out) None s of
        (Inl e, s1) \<Rightarrow> (Inl e, s1)
      | (Inr u, s1) \<Rightarrow>
          (case newest_export (fsys s1) aud_out of
             Inr exported \<Rightarrow>
               (Inr exported,
                py_print (''[INFO] Audiveris export (single-pass): '' @ exported) s1)
           | Inl e \<Rightarrow>
               (case e of
                  RuntimeError m \<Rightarrow> second_pass tool a aud_out s1
                | SystemExit m \<Rightarrow> (Inl e, s1)
                | CalledProcessError c cmd \<Rightarrow> (Inl e, s1)
                | FileNotFoundError p \<Rightarrow> (Inl e, s1))))"

text \<open>Lines 104 to 152: the body of the \<^verbatim>\<open>with\<close> block, \<open>tmp\<close> the fresh workspace.\<close>

definition with_body :: "tool \<Rightarrow> args \<Rightarrow> string \<Rightarrow> state \<Rightarrow> (error + unit) \<times> state" where
  "with_body tool a tmp s =
     (let aud_out = path_join tmp ''audiveris_out''
      in case omr_export tool a aud_out (emit (Mkdir aud_out) s) of
           (Inl e, s2) \<Rightarrow> (Inl e, s2)
         | (Inr exported, s2) \<Rightarrow>
             (let job_path = path_join tmp ''job.json''
              in run_cmd tool [musescore_exe a, ''-j'', job_path] (Some tmp)
                   (build_job_json job_path exported (out_mxl a) (out_pdf a) (plugin_qml a) s2)))"

text \<open>Lines 94 to 96: the first path of the list that does not exist ends the run.\<close>

fun first_missing :: "fs \<Rightarrow> (string \<times> string) list \<Rightarrow> error option" where
  "first_missing fs [] = None"
| "first_missing fs ((p, label) # rest) =
     (if \<not> path_exists fs p then Some (SystemExit (label @ '' not found: '' @ p))
      else first_missing fs rest)"

text \<open>
  The banner of line 159: a newline, the code points U+00E2, U+0153 and U+2026 of the
  source line, and the word \<^verbatim>\<open>Done\<close>.
\<close>

definition done_banner :: string where
  "done_banner = ''\<newline>'' @ [CHR 0xE2] @ wide 0x153 @ wide 0x2026 @ '' Done''"

text \<open>
  Lines 154 to 161, after the \<^verbatim>\<open>with\<close> block has removed the workspace.
\<close>

definition check_outputs :: "args \<Rightarrow> state \<Rightarrow> (error + unit) \<times> state" where
  "check_outputs a s =
     (if \<not> path_exists (fsys s) (out_mxl a)
      then (Inl (SystemExit (''Output MXL not created: '' @ out_mxl a)), s)
      else if \<not> path_exists (fsys s) (out_pdf a)
      then (Inl (SystemExit (''Output PDF not created: '' @ out_pdf a)), s)
      else (Inr (),
            py_print (''PDF: '' @ out_pdf a)
              (py_print (''MXL: '' @ out_mxl a) (py_print done_banner s))))"

definition init_state :: "fs \<Rightarrow> state" where
  "init_state fs0 = \<lparr>fsys = fs0, console = [], trace = []\<rparr>"

definition main :: "tool \<Rightarrow> string \<Rightarrow> args \<Rightarrow> fs \<Rightarrow> (error + unit) \<times> state" where
  "main tool tmp a fs0 =
     (if \<not> path_exists fs0 (pdf_in a)
      then (Inl (SystemExit (''PDF not found: '' @ pdf_in a)), init_state fs0)
      else
        (case first_missing fs0 [(audiveris_exe a, ''Audiveris.exe''),
                                 (musescore_exe a, ''MuseScore.exe''),
                                 (plugin_qml a, ''plugin qml'')] of
           Some e \<Rightarrow> (Inl e, init_state fs0)
         | None \<Rightarrow>
             (case with_body tool a tmp
                     (emit (MkTemp tmp)
                        (emit (Mkdir (path_parent (out_pdf a)))
                           (emit (Mkdir (path_parent (out_mxl a))) (init_state fs0)))) of
                (Inl e, s4) \<Rightarrow> (Inl e, emit (RmTemp tmp) s4)
              | (Inr u, s4) \<Rightarrow> check_outputs a (emit (RmTemp tmp) s4))))"

section \<open>Config Resolver and convenience runner (\<^verbatim>\<open>run.py\<close>)\<close>

text \<open>
  \<^verbatim>\<open>str.splitlines()\<close>: a line ends at a line boundary, \<^verbatim>\<open>\r\n\<close> counts as one
  boundary, and no empty line follows the last boundary. \<open>cur\<close> is the line being
  read, reversed.
\<close>

definition is_linebreak :: "char \<Rightarrow> bool" where
  "is_linebreak c = (c \<in> set [CHR 0x0A, CHR 0x0B, CHR 0x0C, CHR 0x0D,
                                CHR 0x1C, CHR 0x1D, CHR 0x1E, CHR 0x85])"

fun splitlines_from :: "string \<Rightarrow> string \<Rightarrow> string list" where
  "splitlines_from cur [] = (if cur = [] then [] else [rev cur])"
| "splitlines_from cur [c] =
     (if is_linebreak c then [rev cur] else [rev (c # cur)])"
| "splitlines_from cur (c # d # cs) =
     (if c = CHR 0x0D \<and> d = CHR 0x0A then rev cur # splitlines_from [] cs
      else if is_linebreak c then rev cur # splitlines_from [] (d # cs)
      else splitlines_from (c # cur) (d # cs))"

definition splitlines :: "string \<Rightarrow> string list" where
  "splitlines t = splitlines_from [] t"

text \<open>Lines 17 to 21: one line of the configuration file, applied to the dictionary.\<close>

definition dotenv_line :: "(string \<rightharpoonup> string) \<Rightarrow> string \<Rightarrow> (string \<rightharpoonup> string)" where
  "dotenv_line env raw =
     (let line = strip raw
      in if line = [] \<or> prefix ''#'' line \<or> CHR ''='' \<notin> set line then env
         else (let k = takeWhile (\<lambda>c. c \<noteq> CHR ''='') line;
                   v = drop 1 (dropWhile (\<lambda>c. c \<noteq> CHR ''='') line)
               in env(strip k \<mapsto> strip_chars [CHR 0x27] (strip_chars [CHR 0x22] (strip v)))))"

definition load_dotenv :: "fs \<Rightarrow> string \<Rightarrow> (string \<rightharpoonup> string)" where
  "load_dotenv fs dotenv_path =
     (if \<not> path_exists fs dotenv_path then Map.empty
      else foldl dotenv_line Map.empty (splitlines (read_text fs dotenv_path)))"

text \<open>The truth value of \<^verbatim>\<open>env.get(key)\<close>: \<^verbatim>\<open>None\<close> and the empty text are false.\<close>

definition truthy :: "string option \<Rightarrow> bool" where
  "truthy v = (case v of None \<Rightarrow> False | Some t \<Rightarrow> t \<noteq> [])"

text \<open>\<^verbatim>\<open>Path.stem\<close>: the last component without its last suffix.\<close>

definition path_stem :: "string \<Rightarrow> string" where
  "path_stem p =
     (let n = path_name p;
          i = length n - length (takeWhile (\<lambda>c. c \<noteq> CHR ''.'') (rev n)) - 1
      in if CHR ''.'' \<in> set n \<and> 0 < i \<and> i < length n - 1 then take i n else n)"

text \<open>
  The command line of \<^verbatim>\<open>run.py\<close> and its surroundings, every path resolved:
  \<open>script_dir\<close> is the directory of the script and \<open>sys_executable\<close> the interpreter.
\<close>

record run_args =
  r_pdf_in :: string
  r_out_dir :: string
  r_dotenv_path :: string
  script_dir :: string
  sys_executable :: string

definition missing_keys_message :: "string \<Rightarrow> string" where
  "missing_keys_message dotenv_path =
     ''Missing one of these keys in .env:\<newline>''
     @ ''  AUDIVERIS_EXE\<newline>''
     @ ''  MUSESCORE_EXE\<newline>''
     @ ''  JIANPU_QML\<newline>''
     @ ''Loaded from: '' @ dotenv_path"

definition child_cmd :: "run_args \<Rightarrow> string \<Rightarrow> string \<Rightarrow> string \<Rightarrow> string list" where
  "child_cmd ra aud ms qml =
     [sys_executable ra, path_join (script_dir ra) ''main.py'',
      ''--pdf-in'', r_pdf_in ra,
      ''--out-mxl'', path_join (r_out_dir ra) (path_stem (r_pdf_in ra) @ ''_jianpu.mxl''),
      ''--out-pdf'', path_join (r_out_dir ra) (path_stem (r_pdf_in ra) @ ''_jianpu.pdf''),
      ''--audiveris-exe'', aud,
      ''--musescore-exe'', ms,
      ''--plugin-qml'', qml]"

text \<open>
  Lines 35 to 72. \<^verbatim>\<open>subprocess.run(cmd, check=True)\<close> raises \<^verbatim>\<open>CalledProcessError\<close>
  on a return code other than zero.
\<close>

definition run_main :: "tool \<Rightarrow> run_args \<Rightarrow> fs \<Rightarrow> (error + unit) \<times> state" where
  "run_main tool ra fs0 =
     (let env = load_dotenv fs0 (r_dotenv_path ra);
          audiveris = env ''AUDIVERIS_EXE'';
          musescore = env ''MUSESCORE_EXE'';
          plugin = env ''JIANPU_QML''
      in if \<not> (truthy audiveris \<and> truthy musescore \<and> truthy plugin)
         then (Inl (SystemExit (missing_keys_message (r_dotenv_path ra))), init_state fs0)
         else if \<not> path_exists fs0 (r_pdf_in ra)
         then (Inl (SystemExit (''PDF not found: '' @ r_pdf_in ra)), init_state fs0)
         else
           (let cmd = child_cmd ra (the audiveris) (the musescore) (the plugin);
                s1 = py_print (''\<newline>[RUN] '' @ join '' '' cmd)
                       (emit (Mkdir (r_out_dir ra)) (init_state fs0));
                p = fst (tool cmd None (fsys s1));
                s2 = emit (Ran cmd None (returncode p))
                       (s1\<lparr>fsys := snd (tool cmd None (fsys s1))\<rparr>)
            in if returncode p \<noteq> 0 then (Inl (CalledProcessError (returncode p) cmd), s2)
               else (Inr (), s2)))"

section \<open>Fail-fast runs\<close>

text \<open>
  A run that made the events \<open>evs\<close>, ended in the state \<open>s'\<close> and gave the result \<open>r\<close>
  is fail-fast when a child process that returned a code other than zero is the last
  event, every process before it returned zero, \<open>r\<close> is the error raised for that code,
  and \<open>s'\<close> is the very state in which \<open>run_cmd\<close> left that process: nothing was printed,
  written or run after it.
\<close>

definition fail_fast :: "tool \<Rightarrow> (error + 'a) \<Rightarrow> event list \<Rightarrow> state \<Rightarrow> bool" where
  "fail_fast tool r evs s' \<longleftrightarrow>
     (\<forall>cmd cwd c. Ran cmd cwd c \<in> set evs \<and> c \<noteq> 0 \<longrightarrow>
        r = Inl (RuntimeError (''Command failed with exit code '' @ str_int c))
        \<and> (\<exists>pre. evs = pre @ [Ran cmd cwd c]
               \<and> (\<forall>cmd' cwd' c'. Ran cmd' cwd' c' \<in> set pre \<longrightarrow> c' = 0))
        \<and> (\<exists>s0. s' = snd (run_cmd tool cmd cwd s0)
               \<and> returncode (fst (tool cmd cwd (fsys s0))) = c))"

text \<open>
  The state in which the OMR Export Strategy starts in \<open>main\<close>: the parents of the two
  outputs, the workspace and the output directory of the engine have been made.
\<close>

definition at_export :: "string \<Rightarrow> args \<Rightarrow> fs \<Rightarrow> state" where
  "at_export tmp a fs0 =
     emit (Mkdir (path_join tmp ''audiveris_out''))
       (emit (MkTemp tmp)
          (emit (Mkdir (path_parent (out_pdf a)))
             (emit (Mkdir (path_parent (out_mxl a))) (init_state fs0))))"

section \<open>Example inputs\<close>

text \<open>
  An output directory with two entries of equal, latest modification time among the
  recognised ones (\<^verbatim>\<open>a.xml\<close> and \<^verbatim>\<open>s/b.mxl\<close>), a newer entry that is not recognised,
  and the same directory enumerated in the opposite order.
\<close>

definition ex_tree :: fs where
  "ex_tree =
     \<lparr>listing = (\<lambda>d. if d = ''/w/out''
                      then [''/w/out/a.xml'', ''/w/out/notes.txt'', ''/w/out/s/b.mxl'',
                            ''/w/out/c.musicxml'', ''/w/out/d.xml'']
                      else []),
      st_mtime = (\<lambda>p. if p = ''/w/out/notes.txt'' then Some 9
                       else if p = ''/w/out/c.musicxml'' then Some 3
                       else if p = ''/w/out/d.xml'' then Some 4 else Some 5),
      path_exists = (\<lambda>p. False),
      read_text = (\<lambda>p. [])\<rparr>"

definition ex_tree_rev :: fs where
  "ex_tree_rev = ex_tree\<lparr>listing := (\<lambda>d. rev (listing ex_tree d))\<rparr>"

text \<open>An output directory without any export and without a project book.\<close>

definition ex_unmatched :: fs where
  "ex_unmatched =
     \<lparr>listing = (\<lambda>d. if d = ''/w/out'' then [''/w/out/notes.txt'', ''/w/out/log''] else []),
      st_mtime = (\<lambda>p. Some 1),
      path_exists = (\<lambda>p. False),
      read_text = (\<lambda>p. [])\<rparr>"

text \<open>
  A run of \<^verbatim>\<open>main.py\<close>: the inputs exist; the engine \<open>ex_tool code made\<close> writes only
  a project book when it transcribes and an \<^verbatim>\<open>.mxl\<close> file when it exports; the editor
  returns \<open>code\<close> and creates the files \<open>made\<close>.
\<close>

definition ex_args :: args where
  "ex_args = \<lparr>pdf_in = ''/in/score.pdf'', out_mxl = ''/o/score.mxl'', out_pdf = ''/o/score.pdf'',
              audiveris_exe = ''/opt/audiveris'', musescore_exe = ''/opt/mscore'',
              plugin_qml = ''/opt/solfa.qml'', force = False, no_opus = False\<rparr>"

definition ex_fs0 :: fs where
  "ex_fs0 = \<lparr>listing = (\<lambda>d. []), st_mtime = (\<lambda>p. Some 0),
             path_exists = (\<lambda>p. p \<in> set [''/in/score.pdf'', ''/opt/audiveris'', ''/opt/mscore'',
                                            ''/opt/solfa.qml'']),
             read_text = (\<lambda>p. [])\<rparr>"

definition ex_proc :: "int \<Rightarrow> proc" where
  "ex_proc c = \<lparr>returncode = c, stdout = [], stderr = []\<rparr>"

definition ex_tmp :: string where
  "ex_tmp = ''/tmp/omr_tmp_a1''"

definition ex_out :: string where
  "ex_out = ''/tmp/omr_tmp_a1/audiveris_out''"

definition ex_tool :: "int \<Rightarrow> string list \<Rightarrow> tool" where
  "ex_tool code made cmd cwd fs =
     (if ''-transcribe'' \<in> set cmd
      then (ex_proc 0,
            fs\<lparr>listing := (\<lambda>d. if d = ex_out then [ex_out @ ''/score.omr''] else [])\<rparr>)
      else if ''-export'' \<in> set cmd
      then (ex_proc 0,
            fs\<lparr>listing := (\<lambda>d. if d = ex_out
                                 then [ex_out @ ''/score.omr'', ex_out @ ''/score.mxl'']
                                 else [])\<rparr>)
      else (ex_proc code, fs\<lparr>path_exists := (\<lambda>p. p \<in> set made \<or> path_exists fs p)\<rparr>))"

text \<open>
  An engine that returns zero and leaves the entries \<open>found\<close> in the output directory,
  with the modification times \<open>mtimes\<close>; then a transcription that leaves only a log file,
  and one that leaves a project book and an \<^verbatim>\<open>.mxl\<close> link without a target.
\<close>

definition ex_leaves :: "string list \<Rightarrow> (string \<Rightarrow> rat option) \<Rightarrow> tool" where
  "ex_leaves found mtimes cmd cwd fs =
     (ex_proc 0, fs\<lparr>listing := (\<lambda>d. if d = ex_out then found else []), st_mtime := mtimes\<rparr>)"

definition ex_log_only :: tool where
  "ex_log_only = ex_leaves [ex_out @ ''/score.log''] (\<lambda>p. Some 1)"

definition ex_dangling :: tool where
  "ex_dangling =
     ex_leaves [ex_out @ ''/score.omr'', ex_out @ ''/link.mxl'']
       (\<lambda>p. if p = ex_out @ ''/link.mxl'' then None else Some 1)"

text \<open>A tool that fails whatever it is asked to run.\<close>

definition ex_failing :: tool where
  "ex_failing cmd cwd fs = (ex_proc 3, fs)"

text \<open>
  A run of \<^verbatim>\<open>run.py\<close> beside a configuration file that sets the engine and the editor
  but not the plugin. The file \<^verbatim>\<open>/app/none.env\<close> does not exist.
\<close>

definition ex_env_fs :: fs where
  "ex_env_fs =
     \<lparr>listing = (\<lambda>d. []), st_mtime = (\<lambda>p. Some 0),
      path_exists = (\<lambda>p. p \<in> set [''/app/.env'', ''/in/score.pdf'']),
      read_text = (\<lambda>p. if p = ''/app/.env''
                        then ''# tools\<newline>AUDIVERIS_EXE = /opt/audiveris\<newline>''
                             @ ''MUSESCORE_EXE='' @ [CHR 0x22] @ ''/opt/mscore'' @ [CHR 0x22]
                             @ ''\<newline>''
                        else [])\<rparr>"

definition ex_run_args :: run_args where
  "ex_run_args = \<lparr>r_pdf_in = ''/in/score.pdf'', r_out_dir = ''/app/output'',
                  r_dotenv_path = ''/app/.env'', script_dir = ''/app'',
                  sys_executable = ''/usr/bin/python3''\<rparr>"

section \<open>Properties of the Artifact Locator\<close>

subsection \<open>Python's \<^verbatim>\<open>max\<close> returns the first element with the greatest key\<close>

lemma py_max_from_first:
  assumes "py_max_from k best kb ys = Inr m"
    and "k best = Inr kb"
    and "\<forall>q\<in>set pre. \<exists>u. k q = Inr u \<and> u < kb"
    and "\<forall>q\<in>set mid. \<exists>u. k q = Inr u \<and> u \<le> kb"
  shows "\<exists>pre' post' km. pre @ best # mid @ ys = pre' @ m # post' \<and> k m = Inr km
           \<and> (\<forall>q\<in>set pre'. \<exists>u. k q = Inr u \<and> u < km)
           \<and> (\<forall>q\<in>set post'. \<exists>u. k q = Inr u \<and> u \<le> km)"
  using assms
proof (induction ys arbitrary: pre best kb mid)
  case Nil
  then have "m = best" by simp
  with Nil.prems show ?case by auto
next
  case (Cons y ys)
  from Cons.prems(1) obtain ky where ky: "k y = Inr ky"
    by (cases "k y") simp_all
  show ?case
  proof (cases "ky > kb")
    case True
    with Cons.prems(1) ky have r: "py_max_from k y ky ys = Inr m" by simp
    have a: "\<forall>q\<in>set (pre @ best # mid). \<exists>u. k q = Inr u \<and> u < ky"
      using Cons.prems(2,3,4) True by fastforce
    have b: "\<forall>q\<in>set ([]::'a list). \<exists>u. k q = Inr u \<and> u \<le> ky" by simp
    from Cons.IH[OF r ky a b] show ?thesis by simp
  next
    case False
    with Cons.prems(1) ky have r: "py_max_from k best kb ys = Inr m" by simp
    have b: "\<forall>q\<in>set (mid @ [y]). \<exists>u. k q = Inr u \<and> u \<le> kb"
      using Cons.prems(4) ky False by auto
    from Cons.IH[OF r Cons.prems(2) Cons.prems(3) b] show ?thesis by simp
  qed
qed

lemma py_max_first:
  assumes "py_max k c cs = Inr m"
  shows "\<exists>pre post km. c # cs = pre @ m # post \<and> k m = Inr km
           \<and> (\<forall>q\<in>set pre. \<exists>u. k q = Inr u \<and> u < km)
           \<and> (\<forall>q\<in>set post. \<exists>u. k q = Inr u \<and> u \<le> km)"
proof -
  from assms obtain kc where kc: "k c = Inr kc" and r: "py_max_from k c kc cs = Inr m"
    by (cases "k c") (simp_all add: py_max_def)
  from py_max_from_first[OF r kc, of "[]" "[]"] show ?thesis by simp
qed

lemma py_max_from_total:
  "\<forall>q\<in>set ys. \<exists>u. k q = Inr u \<Longrightarrow> \<exists>m. py_max_from k best kb ys = Inr m"
  by (induction ys arbitrary: best kb) auto

lemma py_max_total:
  assumes "\<forall>q\<in>set (c # cs). \<exists>u. k q = Inr u"
  shows "\<exists>m. py_max k c cs = Inr m"
proof -
  from assms obtain kc where "k c = Inr kc" by auto
  moreover from assms have "\<exists>m. py_max_from k c kc cs = Inr m"
    by (intro py_max_from_total) simp
  ultimately show ?thesis by (simp add: py_max_def)
qed

lemma py_max_from_error:
  "py_max_from k best kb ys = Inl e \<Longrightarrow> \<exists>q\<in>set ys. k q = Inl e"
  by (induction ys arbitrary: best kb) (auto split: sum.splits if_splits)

lemma py_max_error:
  "py_max k c cs = Inl e \<Longrightarrow> \<exists>q\<in>set (c # cs). k q = Inl e"
  by (auto simp: py_max_def split: sum.splits dest: py_max_from_error)

subsection \<open>The newest path of a list\<close>

lemma stat_mtime_Inr [simp]: "stat_mtime fs p = Inr u \<longleftrightarrow> st_mtime fs p = Some u"
  by (simp add: stat_mtime_def split: option.splits)

lemma stat_mtime_Inl [simp]:
  "stat_mtime fs p = Inl e \<longleftrightarrow> st_mtime fs p = None \<and> e = FileNotFoundError p"
  by (auto simp: stat_mtime_def split: option.splits)

lemma newest_first:
  assumes "py_max (stat_mtime fs) c cs = Inr p"
  shows "\<exists>pre post t. c # cs = pre @ p # post \<and> st_mtime fs p = Some t
           \<and> (\<forall>q\<in>set pre. \<exists>u. st_mtime fs q = Some u \<and> u < t)
           \<and> (\<forall>q\<in>set post. \<exists>u. st_mtime fs q = Some u \<and> u \<le> t)"
  using py_max_first[OF assms] by simp

lemma newest_greatest:
  assumes "py_max (stat_mtime fs) c cs = Inr p"
  shows "p \<in> set (c # cs) \<and> (\<exists>t. st_mtime fs p = Some t
           \<and> (\<forall>q\<in>set (c # cs). \<exists>u. st_mtime fs q = Some u \<and> u \<le> t))"
proof -
  from newest_first[OF assms] obtain pre post t where d: "c # cs = pre @ p # post"
    and t: "st_mtime fs p = Some t"
    and l: "\<forall>q\<in>set pre. \<exists>u. st_mtime fs q = Some u \<and> u < t"
    and r: "\<forall>q\<in>set post. \<exists>u. st_mtime fs q = Some u \<and> u \<le> t"
    by blast
  have "\<exists>u. st_mtime fs q = Some u \<and> u \<le> t" if "q \<in> set (c # cs)" for q
  proof -
    from that d have "q \<in> set pre \<or> q = p \<or> q \<in> set post" by auto
    with l r t show ?thesis by force
  qed
  moreover have "p \<in> set (c # cs)" unfolding d by simp
  ultimately show ?thesis using t by blast
qed

lemma newest_total:
  assumes "\<forall>q\<in>set (c # cs). st_mtime fs q \<noteq> None"
  shows "\<exists>p. py_max (stat_mtime fs) c cs = Inr p"
proof (rule py_max_total)
  show "\<forall>q\<in>set (c # cs). \<exists>u. stat_mtime fs q = Inr u"
    using assms by auto
qed

lemma newest_error:
  assumes "py_max (stat_mtime fs) c cs = Inl e"
  shows "\<exists>q\<in>set (c # cs). st_mtime fs q = None \<and> e = FileNotFoundError q"
  using py_max_error[OF assms] by simp

subsection \<open>Facts about the export lookup\<close>

lemma set_candidates: "set (candidates fs d) = {p \<in> set (listing fs d). recognized p}"
  by (auto simp: candidates_def rglob_def recognized_def)

lemma newest_export_Nil:
  "candidates fs d = [] \<Longrightarrow>
   newest_export fs d = Inl (RuntimeError (''No MusicXML export found under: '' @ d))"
  by (simp add: newest_export_def)

lemma newest_export_Cons:
  "candidates fs d = c # cs \<Longrightarrow> newest_export fs d = py_max (stat_mtime fs) c cs"
  by (simp add: newest_export_def)

lemma newest_export_first:
  assumes "newest_export fs d = Inr p"
  shows "\<exists>pre post t. candidates fs d = pre @ p # post \<and> st_mtime fs p = Some t
           \<and> (\<forall>q\<in>set pre. \<exists>u. st_mtime fs q = Some u \<and> u < t)
           \<and> (\<forall>q\<in>set post. \<exists>u. st_mtime fs q = Some u \<and> u \<le> t)"
proof (cases "candidates fs d")
  case Nil
  with assms newest_export_Nil[OF Nil] show ?thesis by simp
next
  case (Cons c cs)
  with assms have "py_max (stat_mtime fs) c cs = Inr p" by (simp add: newest_export_Cons)
  from newest_first[OF this] show ?thesis unfolding Cons .
qed

lemma newest_export_max:
  assumes "newest_export fs d = Inr p"
  shows "p \<in> set (listing fs d) \<and> recognized p
         \<and> (\<exists>t. st_mtime fs p = Some t
               \<and> (\<forall>q\<in>set (listing fs d). recognized q \<longrightarrow> (\<exists>u. st_mtime fs q = Some u \<and> u \<le> t)))"
proof (cases "candidates fs d")
  case Nil
  with assms newest_export_Nil[OF Nil] show ?thesis by simp
next
  case (Cons c cs)
  with assms have "py_max (stat_mtime fs) c cs = Inr p" by (simp add: newest_export_Cons)
  from newest_greatest[OF this] have "p \<in> set (candidates fs d)"
    and "\<exists>t. st_mtime fs p = Some t
           \<and> (\<forall>q\<in>set (candidates fs d). \<exists>u. st_mtime fs q = Some u \<and> u \<le> t)"
    unfolding Cons by blast+
  then show ?thesis by (auto simp: set_candidates)
qed

lemma newest_export_exists:
  assumes "q \<in> set (listing fs d)" and "recognized q"
    and "\<forall>r\<in>set (listing fs d). recognized r \<longrightarrow> st_mtime fs r \<noteq> None"
  shows "\<exists>p. newest_export fs d = Inr p"
proof -
  from assms(1,2) have "q \<in> set (candidates fs d)" by (simp add: set_candidates)
  then obtain c cs where c: "candidates fs d = c # cs" by (cases "candidates fs d") auto
  have "\<forall>r\<in>set (c # cs). st_mtime fs r \<noteq> None"
    using assms(3) set_candidates[of fs d] unfolding c by auto
  from newest_total[OF this] show ?thesis by (simp add: newest_export_Cons[OF c])
qed

lemma newest_export_error:
  assumes "newest_export fs d = Inl e"
  shows "(candidates fs d = [] \<and> e = RuntimeError (''No MusicXML export found under: '' @ d))
         \<or> (\<exists>q\<in>set (candidates fs d). st_mtime fs q = None \<and> e = FileNotFoundError q)"
proof (cases "candidates fs d")
  case Nil
  with assms newest_export_Nil[OF Nil] show ?thesis by simp
next
  case (Cons c cs)
  with assms have "py_max (stat_mtime fs) c cs = Inl e" by (simp add: newest_export_Cons)
  from newest_error[OF this] show ?thesis unfolding Cons by simp
qed

subsection \<open>Facts about the book lookup\<close>

lemma rglob_all: "rglob fs d [] = listing fs d"
  by (simp add: rglob_def)

lemma newest_omr_book_Nil:
  "rglob fs d ''.omr'' = [] \<Longrightarrow>
   newest_omr_book fs d
     = Inl (RuntimeError (''No .omr book found under: '' @ d @ ''\<newline>Created files:\<newline>''
                          @ join ''\<newline>'' (take 120 (listing fs d))))"
  by (simp add: newest_omr_book_def rglob_all)

lemma newest_omr_book_Cons:
  "rglob fs d ''.omr'' = b # bs \<Longrightarrow> newest_omr_book fs d = py_max (stat_mtime fs) b bs"
  by (simp add: newest_omr_book_def)

lemma newest_omr_book_greatest:
  assumes "newest_omr_book fs d = Inr book"
  shows "book \<in> set (rglob fs d ''.omr'')
         \<and> (\<exists>t. st_mtime fs book = Some t
               \<and> (\<forall>q\<in>set (rglob fs d ''.omr''). \<exists>u. st_mtime fs q = Some u \<and> u \<le> t))"
proof (cases "rglob fs d ''.omr''")
  case Nil
  with assms newest_omr_book_Nil[OF Nil] show ?thesis by simp
next
  case (Cons b bs)
  with assms have "py_max (stat_mtime fs) b bs = Inr book" by (simp add: newest_omr_book_Cons)
  from newest_greatest[OF this] show ?thesis unfolding Cons .
qed

lemma newest_omr_book_error:
  assumes "newest_omr_book fs d = Inl e"
  shows "(rglob fs d ''.omr'' = []
          \<and> e = RuntimeError (''No .omr book found under: '' @ d @ ''\<newline>Created files:\<newline>''
                               @ join ''\<newline>'' (take 120 (listing fs d))))
         \<or> (\<exists>q\<in>set (rglob fs d ''.omr''). st_mtime fs q = None \<and> e = FileNotFoundError q)"
proof (cases "rglob fs d ''.omr''")
  case Nil
  with assms newest_omr_book_Nil[OF Nil] show ?thesis by simp
next
  case (Cons b bs)
  with assms have "py_max (stat_mtime fs) b bs = Inl e" by (simp add: newest_omr_book_Cons)
  from newest_error[OF this] show ?thesis unfolding Cons by simp
qed

subsection \<open>The lookup returns a recognised entry of latest modification time\<close>

text \<open>
  Claim C2. When the tree below \<open>d\<close> holds an entry with a recognised extension
  (\<^verbatim>\<open>.mxl\<close>, \<^verbatim>\<open>.musicxml\<close>, \<^verbatim>\<open>.xml\<close>), whatever else it holds, and every recognised entry
  has a modification time (\<^verbatim>\<open>stat\<close> succeeds on it), \<open>newest_export\<close> returns an entry
  of the tree with a recognised extension whose modification time is greatest among all
  recognised entries. The time of the result does not depend on the order of enumeration:
  any file system that enumerates the same entries with the same times, in any order,
  yields a result of the same modification time.
\<close>

theorem newest_export_latest:
  assumes "q \<in> set (listing fs d)" and "recognized q"
    and "\<forall>r\<in>set (listing fs d). recognized r \<longrightarrow> st_mtime fs r \<noteq> None"
  shows "\<exists>p t. newest_export fs d = Inr p \<and> p \<in> set (listing fs d) \<and> recognized p
           \<and> st_mtime fs p = Some t
           \<and> (\<forall>r\<in>set (listing fs d). recognized r \<longrightarrow> (\<exists>u. st_mtime fs r = Some u \<and> u \<le> t))
           \<and> (\<forall>fs'. set (listing fs' d) = set (listing fs d) \<and> st_mtime fs' = st_mtime fs
                 \<longrightarrow> (\<exists>p'. newest_export fs' d = Inr p' \<and> st_mtime fs p' = Some t))"
proof -
  from newest_export_exists[OF assms] obtain p where p: "newest_export fs d = Inr p" ..
  from newest_export_max[OF p] obtain t where m: "p \<in> set (listing fs d)" "recognized p"
    "st_mtime fs p = Some t"
    "\<forall>r\<in>set (listing fs d). recognized r \<longrightarrow> (\<exists>u. st_mtime fs r = Some u \<and> u \<le> t)"
    by blast
  have "\<exists>p'. newest_export fs' d = Inr p' \<and> st_mtime fs p' = Some t"
    if s: "set (listing fs' d) = set (listing fs d)" and e: "st_mtime fs' = st_mtime fs" for fs'
  proof -
    from assms s e have "q \<in> set (listing fs' d)"
      and "\<forall>r\<in>set (listing fs' d). recognized r \<longrightarrow> st_mtime fs' r \<noteq> None"
      by simp_all
    from newest_export_exists[OF this(1) assms(2) this(2)]
    obtain p' where p': "newest_export fs' d = Inr p'" ..
    from newest_export_max[OF p'] obtain t' where m': "p' \<in> set (listing fs' d)" "recognized p'"
      "st_mtime fs' p' = Some t'"
      "\<forall>r\<in>set (listing fs' d). recognized r \<longrightarrow> (\<exists>u. st_mtime fs' r = Some u \<and> u \<le> t')"
      by blast
    from m'(1,2,3) m(4) s e have "t' \<le> t" by auto
    moreover from m(1,2,3) m'(4) s e have "t \<le> t'" by auto
    ultimately have "t' = t" by simp
    with m'(3) e p' show ?thesis by simp
  qed
  with p m show ?thesis by blast
qed

theorem newest_export_latest_witness:
  "newest_export ex_tree ''/w/out'' = Inr ''/w/out/s/b.mxl''
   \<and> newest_export ex_tree_rev ''/w/out'' = Inr ''/w/out/s/b.mxl''
   \<and> (\<exists>p t. newest_export ex_tree ''/w/out'' = Inr p \<and> p \<in> set (listing ex_tree ''/w/out'')
          \<and> recognized p \<and> st_mtime ex_tree p = Some t
          \<and> (\<forall>r\<in>set (listing ex_tree ''/w/out'').
                recognized r \<longrightarrow> (\<exists>u. st_mtime ex_tree r = Some u \<and> u \<le> t)))"
proof -
  have a: "''/w/out/a.xml'' \<in> set (listing ex_tree ''/w/out'')"
    by (simp add: ex_tree_def)
  have b: "recognized ''/w/out/a.xml''" by code_simp
  have s: "\<forall>r\<in>set (listing ex_tree ''/w/out''). recognized r \<longrightarrow> st_mtime ex_tree r \<noteq> None"
    by (simp add: ex_tree_def)
  have c: "newest_export ex_tree ''/w/out'' = Inr ''/w/out/s/b.mxl''" by code_simp
  have d: "newest_export ex_tree_rev ''/w/out'' = Inr ''/w/out/s/b.mxl''" by code_simp
  from newest_export_latest[OF a b s] c d show ?thesis by blast
qed

subsection \<open>The lookup fails when nothing is recognised\<close>

text \<open>
  Claim C3. On a tree that is empty or holds no entry with a recognised extension,
  \<open>newest_export\<close> raises the \<^verbatim>\<open>RuntimeError\<close> that reports the missing export and
  names the root. It never returns nothing. On every tree exactly these outcomes are
  possible: that error, raised only when no entry is recognised; a recognised entry of
  the tree, returned; or the \<^verbatim>\<open>FileNotFoundError\<close> of \<^verbatim>\<open>stat\<close> for a recognised entry
  that has no modification time.
\<close>

theorem newest_export_unmatched_fails:
  "((\<forall>p\<in>set (listing fs d). \<not> recognized p) \<longrightarrow>
      newest_export fs d = Inl (RuntimeError (''No MusicXML export found under: '' @ d)))
   \<and> ((newest_export fs d = Inl (RuntimeError (''No MusicXML export found under: '' @ d))
         \<and> (\<forall>p\<in>set (listing fs d). \<not> recognized p))
        \<or> (\<exists>p\<in>set (listing fs d). recognized p \<and> newest_export fs d = Inr p)
        \<or> (\<exists>p\<in>set (listing fs d). recognized p \<and> st_mtime fs p = None
              \<and> newest_export fs d = Inl (FileNotFoundError p)))"
proof
  show "(\<forall>p\<in>set (listing fs d). \<not> recognized p) \<longrightarrow>
      newest_export fs d = Inl (RuntimeError (''No MusicXML export found under: '' @ d))"
  proof
    assume "\<forall>p\<in>set (listing fs d). \<not> recognized p"
    then have "set (candidates fs d) = {}" by (auto simp: set_candidates)
    then have "candidates fs d = []" by simp
    then show "newest_export fs d = Inl (RuntimeError (''No MusicXML export found under: '' @ d))"
      by (rule newest_export_Nil)
  qed
  show "(newest_export fs d = Inl (RuntimeError (''No MusicXML export found under: '' @ d))
         \<and> (\<forall>p\<in>set (listing fs d). \<not> recognized p))
        \<or> (\<exists>p\<in>set (listing fs d). recognized p \<and> newest_export fs d = Inr p)
        \<or> (\<exists>p\<in>set (listing fs d). recognized p \<and> st_mtime fs p = None
              \<and> newest_export fs d = Inl (FileNotFoundError p))"
  proof (cases "newest_export fs d")
    case (Inl e)
    from newest_export_error[OF Inl] show ?thesis
    proof
      assume h: "candidates fs d = [] \<and> e = RuntimeError (''No MusicXML export found under: '' @ d)"
      then have "set (candidates fs d) = {}" by simp
      then have "\<forall>p\<in>set (listing fs d). \<not> recognized p" by (auto simp: set_candidates)
      with h Inl show ?thesis by simp
    next
      assume "\<exists>q\<in>set (candidates fs d). st_mtime fs q = None \<and> e = FileNotFoundError q"
      then obtain q where "q \<in> set (candidates fs d)" "st_mtime fs q = None"
        "e = FileNotFoundError q" by blast
      with Inl have "q \<in> set (listing fs d) \<and> recognized q \<and> st_mtime fs q = None
                     \<and> newest_export fs d = Inl (FileNotFoundError q)"
        by (simp add: set_candidates)
      then show ?thesis by blast
    qed
  next
    case (Inr p)
    with newest_export_max[OF Inr] show ?thesis by blast
  qed
qed

theorem newest_export_unmatched_fails_witness:
  "filter recognized (listing ex_unmatched ''/w/out'') = []
   \<and> newest_export ex_unmatched ''/w/out''
       = Inl (RuntimeError ''No MusicXML export found under: /w/out'')
   \<and> listing ex_unmatched ''/empty'' = []
   \<and> newest_export ex_unmatched ''/empty''
       = Inl (RuntimeError ''No MusicXML export found under: /empty'')"
proof -
  have f: "filter recognized (listing ex_unmatched ''/w/out'') = []"
    by code_simp
  then have h: "\<forall>p\<in>set (listing ex_unmatched ''/w/out''). \<not> recognized p"
    by (simp add: filter_empty_conv)
  have l: "listing ex_unmatched ''/empty'' = []"
    by (simp add: ex_unmatched_def)
  then have e: "\<forall>p\<in>set (listing ex_unmatched ''/empty''). \<not> recognized p"
    by simp
  from newest_export_unmatched_fails[of ex_unmatched "''/w/out''"]
       newest_export_unmatched_fails[of ex_unmatched "''/empty''"] h e f l
  show ?thesis by simp
qed

subsection \<open>Ties go to the first candidate in enumeration order\<close>

lemma split_before:
  assumes "pre @ p # post = A @ B" and "p \<notin> set A"
  shows "set A \<subseteq> set pre"
proof -
  from assms(1) obtain us where
    "(pre = A @ us \<and> us @ p # post = B) \<or> (pre @ us = A \<and> p # post = us @ B)"
    by (auto simp: append_eq_append_conv2)
  then show ?thesis
  proof
    assume "pre = A @ us \<and> us @ p # post = B"
    then show ?thesis by auto
  next
    assume h: "pre @ us = A \<and> p # post = us @ B"
    with assms(2) have "us = []" by (cases us) auto
    with h show ?thesis by auto
  qed
qed

text \<open>
  Claim C9. The candidates are all \<^verbatim>\<open>.mxl\<close> entries, then all \<^verbatim>\<open>.musicxml\<close> entries, then
  all \<^verbatim>\<open>.xml\<close> entries, each group in enumeration order. The entry returned is the first
  candidate of greatest modification time: every candidate before it is strictly older and
  no candidate after it is newer. So when an \<^verbatim>\<open>.mxl\<close> entry has the greatest time, the
  result is an \<^verbatim>\<open>.mxl\<close> entry, even if an \<^verbatim>\<open>.xml\<close> entry has the same time.
\<close>

theorem newest_export_tie_first:
  assumes "newest_export fs d = Inr p"
  shows "candidates fs d = filter (\<lambda>q. suffix ''.mxl'' (path_name q)) (listing fs d)
                           @ filter (\<lambda>q. suffix ''.musicxml'' (path_name q)) (listing fs d)
                           @ filter (\<lambda>q. suffix ''.xml'' (path_name q)) (listing fs d)
       \<and> (\<exists>pre post t. candidates fs d = pre @ p # post \<and> st_mtime fs p = Some t
             \<and> (\<forall>q\<in>set pre. \<exists>u. st_mtime fs q = Some u \<and> u < t)
             \<and> (\<forall>q\<in>set post. \<exists>u. st_mtime fs q = Some u \<and> u \<le> t))
       \<and> ((\<exists>a\<in>set (rglob fs d ''.mxl''). \<forall>q\<in>set (candidates fs d).
               \<forall>u v. st_mtime fs q = Some u \<longrightarrow> st_mtime fs a = Some v \<longrightarrow> u \<le> v)
            \<longrightarrow> suffix ''.mxl'' (path_name p))"
proof -
  from newest_export_first[OF assms] obtain pre post t where d: "candidates fs d = pre @ p # post"
    and t: "st_mtime fs p = Some t"
    and l: "\<forall>q\<in>set pre. \<exists>u. st_mtime fs q = Some u \<and> u < t"
    and r: "\<forall>q\<in>set post. \<exists>u. st_mtime fs q = Some u \<and> u \<le> t"
    by blast
  have pref: "suffix ''.mxl'' (path_name p)"
    if a: "a \<in> set (rglob fs d ''.mxl'')"
      and top: "\<forall>q\<in>set (candidates fs d).
                  \<forall>u v. st_mtime fs q = Some u \<longrightarrow> st_mtime fs a = Some v \<longrightarrow> u \<le> v" for a
  proof (rule ccontr)
    assume "\<not> suffix ''.mxl'' (path_name p)"
    then have "p \<notin> set (rglob fs d ''.mxl'')" by (simp add: rglob_def)
    moreover have "pre @ p # post
        = rglob fs d ''.mxl'' @ (rglob fs d ''.musicxml'' @ rglob fs d ''.xml'')"
      using d by (simp add: candidates_def)
    ultimately have "set (rglob fs d ''.mxl'') \<subseteq> set pre" by (rule split_before[rotated])
    with a l obtain v where v: "st_mtime fs a = Some v" "v < t" by blast
    have "p \<in> set (candidates fs d)" using d by simp
    with top t v(1) have "t \<le> v" by blast
    with v(2) show False by simp
  qed
  have "candidates fs d = filter (\<lambda>q. suffix ''.mxl'' (path_name q)) (listing fs d)
                           @ filter (\<lambda>q. suffix ''.musicxml'' (path_name q)) (listing fs d)
                           @ filter (\<lambda>q. suffix ''.xml'' (path_name q)) (listing fs d)"
    by (simp add: candidates_def rglob_def)
  with d t l r pref show ?thesis by blast
qed

theorem newest_export_tie_first_witness:
  "newest_export ex_tree ''/w/out'' = Inr ''/w/out/s/b.mxl''
   \<and> candidates ex_tree ''/w/out'' = [''/w/out/s/b.mxl'', ''/w/out/c.musicxml'', ''/w/out/a.xml'', ''/w/out/d.xml'']
   \<and> st_mtime ex_tree ''/w/out/a.xml'' = st_mtime ex_tree ''/w/out/s/b.mxl''
   \<and> (\<exists>pre post t. candidates ex_tree ''/w/out'' = pre @ ''/w/out/s/b.mxl'' # post
         \<and> st_mtime ex_tree ''/w/out/s/b.mxl'' = Some t
         \<and> (\<forall>q\<in>set pre. \<exists>u. st_mtime ex_tree q = Some u \<and> u < t)
         \<and> (\<forall>q\<in>set post. \<exists>u. st_mtime ex_tree q = Some u \<and> u \<le> t))"
proof -
  have c: "newest_export ex_tree ''/w/out'' = Inr ''/w/out/s/b.mxl''" by code_simp
  have e: "candidates ex_tree ''/w/out''
           = [''/w/out/s/b.mxl'', ''/w/out/c.musicxml'', ''/w/out/a.xml'', ''/w/out/d.xml'']"
    by code_simp
  have t: "st_mtime ex_tree ''/w/out/a.xml'' = st_mtime ex_tree ''/w/out/s/b.mxl''"
    by (simp add: ex_tree_def)
  from newest_export_tie_first[OF c] c e t show ?thesis by blast
qed

subsection \<open>The failed book lookup lists what it found\<close>

text \<open>
  Claim C8. When no entry below \<open>d\<close> has the extension \<^verbatim>\<open>.omr\<close>, \<open>newest_omr_book\<close>
  raises a \<^verbatim>\<open>RuntimeError\<close> whose message names the root and carries a sample of the
  entries found below it: the first 120 of the enumeration, or all of them when there are
  fewer, one per line.
\<close>

theorem newest_omr_book_sample:
  assumes "\<forall>p\<in>set (listing fs d). \<not> suffix ''.omr'' (path_name p)"
  shows "\<exists>sample. newest_omr_book fs d
           = Inl (RuntimeError (''No .omr book found under: '' @ d
                                @ ''\<newline>Created files:\<newline>'' @ join ''\<newline>'' sample))
         \<and> sample = take 120 (listing fs d) \<and> length sample \<le> 120
         \<and> prefix sample (listing fs d)"
proof -
  from assms have "rglob fs d ''.omr'' = []"
    by (auto simp: rglob_def filter_empty_conv)
  then have "newest_omr_book fs d
      = Inl (RuntimeError (''No .omr book found under: '' @ d
                           @ ''\<newline>Created files:\<newline>''
                           @ join ''\<newline>'' (take 120 (listing fs d))))"
    by (simp add: newest_omr_book_def rglob_all)
  moreover have "prefix (take 120 (listing fs d)) (listing fs d)"
    by (rule take_is_prefix)
  ultimately show ?thesis by simp
qed

theorem newest_omr_book_sample_witness:
  "rglob ex_unmatched ''/w/out'' ''.omr'' = []
   \<and> newest_omr_book ex_unmatched ''/w/out''
       = Inl (RuntimeError ''No .omr book found under: /w/out\<newline>Created files:\<newline>/w/out/notes.txt\<newline>/w/out/log'')"
proof -
  have r: "rglob ex_unmatched ''/w/out'' ''.omr'' = []"
    by code_simp
  then have h: "\<forall>p\<in>set (listing ex_unmatched ''/w/out''). \<not> suffix ''.omr'' (path_name p)"
    by (simp add: rglob_def filter_empty_conv)
  have l: "listing ex_unmatched ''/w/out'' = [''/w/out/notes.txt'', ''/w/out/log'']"
    by (simp add: ex_unmatched_def)
  from newest_omr_book_sample[OF h] r show ?thesis
    by (simp add: l)
qed

section \<open>Properties of the Process Invoker and the OMR Export Strategy\<close>

subsection \<open>What one invocation does\<close>

lemma trace_py_print [simp]: "trace (py_print t s) = trace s"
  by (simp add: py_print_def)

lemma fsys_py_print [simp]: "fsys (py_print t s) = fsys s"
  by (simp add: py_print_def)

lemma trace_emit [simp]: "trace (emit ev s) = trace s @ [ev]"
  by (simp add: emit_def)

lemma fsys_emit [simp]: "fsys (emit ev s) = fsys s"
  by (simp add: emit_def)

lemma run_cmd_trace:
  "trace (snd (run_cmd tool cmd cwd s))
     = trace s @ [Ran cmd cwd (returncode (fst (tool cmd cwd (fsys s))))]"
  by (simp add: run_cmd_def Let_def)

lemma run_cmd_fsys:
  "fsys (snd (run_cmd tool cmd cwd s)) = snd (tool cmd cwd (fsys s))"
  by (simp add: run_cmd_def Let_def emit_def py_print_def)

lemma run_cmd_result:
  "fst (run_cmd tool cmd cwd s)
     = (if returncode (fst (tool cmd cwd (fsys s))) \<noteq> 0
        then Inl (RuntimeError (''Command failed with exit code ''
                                @ str_int (returncode (fst (tool cmd cwd (fsys s))))))
        else Inr ())"
  by (simp add: run_cmd_def Let_def)

lemma run_cmd_Inl:
  assumes "run_cmd tool cmd cwd s = (Inl e, s')"
  shows "returncode (fst (tool cmd cwd (fsys s))) \<noteq> 0"
    and "e = RuntimeError (''Command failed with exit code ''
                           @ str_int (returncode (fst (tool cmd cwd (fsys s)))))"
    and "trace s' = trace s @ [Ran cmd cwd (returncode (fst (tool cmd cwd (fsys s))))]"
    and "fsys s' = snd (tool cmd cwd (fsys s))"
  using assms run_cmd_result[of tool cmd cwd s] run_cmd_trace[of tool cmd cwd s]
    run_cmd_fsys[of tool cmd cwd s]
  by (auto split: if_splits)

lemma run_cmd_Inr:
  assumes "run_cmd tool cmd cwd s = (Inr u, s')"
  shows "returncode (fst (tool cmd cwd (fsys s))) = 0"
    and "trace s' = trace s @ [Ran cmd cwd 0]"
    and "fsys s' = snd (tool cmd cwd (fsys s))"
  using assms run_cmd_result[of tool cmd cwd s] run_cmd_trace[of tool cmd cwd s]
    run_cmd_fsys[of tool cmd cwd s]
  by (auto split: if_splits)

lemma fail_fast_single_fail:
  assumes "run_cmd tool cmd cwd s0 = (Inl e, s')"
  shows "fail_fast tool (Inl e) [Ran cmd cwd (returncode (fst (tool cmd cwd (fsys s0))))] s'"
proof -
  note f = run_cmd_Inl[OF assms]
  have "s' = snd (run_cmd tool cmd cwd s0)" using assms by simp
  with f(2) show ?thesis unfolding fail_fast_def by auto
qed

lemma fail_fast_clean:
  "\<forall>cmd cwd c. Ran cmd cwd c \<in> set evs \<longrightarrow> c = 0 \<Longrightarrow> fail_fast tool r evs s'"
  by (auto simp: fail_fast_def)

lemma fail_fast_Inr:
  "fail_fast tool (Inr x) evs s' \<Longrightarrow> Ran cmd cwd c \<in> set evs \<Longrightarrow> c = 0"
  unfolding fail_fast_def by blast

lemma fail_fast_retype:
  "fail_fast tool (Inl e :: error + 'a) evs s' \<Longrightarrow> fail_fast tool (Inl e :: error + 'b) evs s'"
  unfolding fail_fast_def by simp

lemma fail_fast_append:
  assumes "\<forall>cmd cwd c. Ran cmd cwd c \<in> set evs1 \<longrightarrow> c = 0" and "fail_fast tool r evs2 s'"
  shows "fail_fast tool r (evs1 @ evs2) s'"
  unfolding fail_fast_def
proof (intro allI impI)
  fix cmd cwd c
  assume h: "Ran cmd cwd c \<in> set (evs1 @ evs2) \<and> c \<noteq> 0"
  with assms(1) have m: "Ran cmd cwd c \<in> set evs2" by auto
  with h assms(2) obtain pre where
    r: "r = Inl (RuntimeError (''Command failed with exit code '' @ str_int c))"
    and p: "evs2 = pre @ [Ran cmd cwd c]"
    and z: "\<forall>cmd' cwd' c'. Ran cmd' cwd' c' \<in> set pre \<longrightarrow> c' = 0"
    and st: "\<exists>s0. s' = snd (run_cmd tool cmd cwd s0)
               \<and> returncode (fst (tool cmd cwd (fsys s0))) = c"
    unfolding fail_fast_def by blast
  have e: "evs1 @ evs2 = (evs1 @ pre) @ [Ran cmd cwd c]" using p by simp
  have cl: "\<forall>cmd' cwd' c'. Ran cmd' cwd' c' \<in> set (evs1 @ pre) \<longrightarrow> c' = 0"
    using assms(1) z by auto
  from e cl have "\<exists>pre. evs1 @ evs2 = pre @ [Ran cmd cwd c]
               \<and> (\<forall>cmd' cwd' c'. Ran cmd' cwd' c' \<in> set pre \<longrightarrow> c' = 0)"
    by (intro exI[of _ "evs1 @ pre"] conjI)
  with r st show "r = Inl (RuntimeError (''Command failed with exit code '' @ str_int c))
        \<and> (\<exists>pre. evs1 @ evs2 = pre @ [Ran cmd cwd c]
               \<and> (\<forall>cmd' cwd' c'. Ran cmd' cwd' c' \<in> set pre \<longrightarrow> c' = 0))
        \<and> (\<exists>s0. s' = snd (run_cmd tool cmd cwd s0)
               \<and> returncode (fst (tool cmd cwd (fsys s0))) = c)"
    by (intro conjI)
qed

subsection \<open>The shape of the strategy's runs\<close>

lemma second_pass_shape:
  assumes "second_pass tool a out s = (r, s')"
  shows "\<exists>evs. trace s' = trace s @ evs \<and> (\<forall>ev\<in>set evs. \<exists>cmd c. ev = Ran cmd None c)
           \<and> fail_fast tool r evs s'"
proof (cases "newest_omr_book (fsys s) out")
  case (Inl e)
  with assms have "s' = s" by (simp add: second_pass_def)
  then have "trace s' = trace s @ []" by simp
  moreover have "fail_fast tool r [] s'" by (simp add: fail_fast_def)
  ultimately show ?thesis by fastforce
next
  case (Inr book)
  let ?s2 = "py_print (''[INFO] Audiveris book found: '' @ book) s"
  obtain r2 s3 where run: "run_cmd tool (aud_cmd_2 a out book) None ?s2 = (r2, s3)"
    by (cases "run_cmd tool (aud_cmd_2 a out book) None ?s2")
  show ?thesis
  proof (cases r2)
    case (Inl e)
    note f = run_cmd_Inl[OF run[unfolded Inl]]
    from assms Inr run Inl have rs: "r = Inl e" "s' = s3" by (simp_all add: second_pass_def)
    have "fail_fast tool r [Ran (aud_cmd_2 a out book) None
                               (returncode (fst (tool (aud_cmd_2 a out book) None (fsys ?s2))))] s'"
      unfolding rs by (rule fail_fast_single_fail[OF run[unfolded Inl]])
    with f(3) rs show ?thesis by fastforce
  next
    case u: (Inr u)
    note f = run_cmd_Inr[OF run[unfolded u]]
    from assms Inr run u have "trace s' = trace s3"
      by (auto simp: second_pass_def split: sum.splits)
    with f have "trace s' = trace s @ [Ran (aud_cmd_2 a out book) None 0]" by simp
    moreover have "fail_fast tool r [Ran (aud_cmd_2 a out book) None 0] s'"
      by (rule fail_fast_clean) simp
    ultimately show ?thesis by fastforce
  qed
qed

lemma omr_export_shape:
  assumes "omr_export tool a out s = (r, s')"
  shows "\<exists>evs. trace s' = trace s @ evs \<and> (\<forall>ev\<in>set evs. \<exists>cmd c. ev = Ran cmd None c)
           \<and> fail_fast tool r evs s'"
proof -
  obtain r1 s1 where run: "run_cmd tool (aud_cmd_1 a out) None s = (r1, s1)"
    by (cases "run_cmd tool (aud_cmd_1 a out) None s")
  show ?thesis
  proof (cases r1)
    case (Inl e)
    note f = run_cmd_Inl[OF run[unfolded Inl]]
    from assms run Inl have rs: "r = Inl e" "s' = s1" by (simp_all add: omr_export_def)
    have "fail_fast tool r [Ran (aud_cmd_1 a out) None
                               (returncode (fst (tool (aud_cmd_1 a out) None (fsys s))))] s'"
      unfolding rs by (rule fail_fast_single_fail[OF run[unfolded Inl]])
    with f(3) rs show ?thesis by fastforce
  next
    case u: (Inr u)
    note f = run_cmd_Inr[OF run[unfolded u]]
    have clean: "\<forall>cmd cwd c. Ran cmd cwd c \<in> set [Ran (aud_cmd_1 a out) None 0] \<longrightarrow> c = 0"
      by simp
    show ?thesis
    proof (cases "\<exists>m. newest_export (fsys s1) out = Inl (RuntimeError m)")
      case True
      with assms run u have "second_pass tool a out s1 = (r, s')"
        by (auto simp: omr_export_def)
      from second_pass_shape[OF this] obtain evs where
        e: "trace s' = trace s1 @ evs" "\<forall>ev\<in>set evs. \<exists>cmd c. ev = Ran cmd None c"
           "fail_fast tool r evs s'" by blast
      from e(1) f(2) have "trace s' = trace s @ ([Ran (aud_cmd_1 a out) None 0] @ evs)" by simp
      moreover from e(2) have "\<forall>ev\<in>set ([Ran (aud_cmd_1 a out) None 0] @ evs). \<exists>cmd c. ev = Ran cmd None c"
        by auto
      moreover have "fail_fast tool r ([Ran (aud_cmd_1 a out) None 0] @ evs) s'"
        using clean e(3) by (rule fail_fast_append)
      ultimately show ?thesis by blast
    next
      case False
      with assms run u have "trace s' = trace s1"
        by (auto simp: omr_export_def split: sum.splits error.splits)
      with f have "trace s' = trace s @ [Ran (aud_cmd_1 a out) None 0]" by simp
      moreover have "fail_fast tool r [Ran (aud_cmd_1 a out) None 0] s'"
        using clean by (rule fail_fast_clean)
      ultimately show ?thesis by fastforce
    qed
  qed
qed

section \<open>Properties of the Pipeline Controller\<close>

subsection \<open>The shape of a run\<close>

lemma with_body_shape:
  assumes "with_body tool a tmp s = (r, s')"
  shows "\<exists>evs. trace s' = trace s @ evs
           \<and> (\<forall>t. MkTemp t \<notin> set evs \<and> RmTemp t \<notin> set evs)
           \<and> fail_fast tool r evs s'
           \<and> (\<forall>cmd w. Ran cmd (Some w) 0 \<in> set evs \<longrightarrow> r = Inr ())"
proof -
  let ?out = "path_join tmp ''audiveris_out''"
  obtain r0 s2 where o: "omr_export tool a ?out (emit (Mkdir ?out) s) = (r0, s2)"
    by (cases "omr_export tool a ?out (emit (Mkdir ?out) s)")
  from omr_export_shape[OF o] obtain evs0 where
    t0: "trace s2 = trace s @ Mkdir ?out # evs0"
    and only: "\<forall>ev\<in>set evs0. \<exists>cmd c. ev = Ran cmd None c"
    and ff: "fail_fast tool r0 evs0 s2"
    by auto
  show ?thesis
  proof (cases r0)
    case (Inl e)
    with assms o have r: "r = Inl e" and s': "s' = s2"
      by (simp_all add: with_body_def Let_def)
    have cl: "\<forall>cmd cwd c. Ran cmd cwd c \<in> set [Mkdir ?out] \<longrightarrow> c = 0"
      by simp
    have ff': "fail_fast tool (Inl e :: error + unit) evs0 s'"
      using ff[unfolded Inl] unfolding s' by (rule fail_fast_retype)
    have "fail_fast tool r ([Mkdir ?out] @ evs0) s'"
      unfolding r using cl ff' by (rule fail_fast_append)
    moreover have "\<forall>t. MkTemp t \<notin> set (Mkdir ?out # evs0) \<and> RmTemp t \<notin> set (Mkdir ?out # evs0)"
      using only by auto
    moreover have "\<forall>cmd w. Ran cmd (Some w) 0 \<notin> set (Mkdir ?out # evs0)"
      using only by auto
    ultimately show ?thesis using t0 s' by auto
  next
    case (Inr exported)
    let ?job = "path_join tmp ''job.json''"
    let ?s3 = "build_job_json ?job exported (out_mxl a) (out_pdf a) (plugin_qml a) s2"
    let ?cmd = "[musescore_exe a, ''-j'', ?job]"
    let ?c = "returncode (fst (tool ?cmd (Some tmp) (fsys ?s3)))"
    let ?w = "WroteJob ?job \<lparr>job_in = exported, job_plugin = plugin_qml a,
                                job_out = [out_mxl a, out_pdf a]\<rparr>"
    from assms o Inr have run: "run_cmd tool ?cmd (Some tmp) ?s3 = (r, s')"
      by (simp add: with_body_def Let_def)
    have t3: "trace ?s3 = trace s2 @ [?w]"
      by (simp add: build_job_json_def)
    from run run_cmd_trace[of tool ?cmd "Some tmp" ?s3] t3 t0
    have t: "trace s' = trace s @ (Mkdir ?out # evs0 @ [?w]) @ [Ran ?cmd (Some tmp) ?c]"
      by simp
    from run run_cmd_result[of tool ?cmd "Some tmp" ?s3]
    have r: "r = (if ?c \<noteq> 0 then Inl (RuntimeError (''Command failed with exit code '' @ str_int ?c))
                  else Inr ())"
      by simp
    have clean: "\<forall>cmd cwd c. Ran cmd cwd c \<in> set (Mkdir ?out # evs0 @ [?w]) \<longrightarrow> c = 0"
      using fail_fast_Inr[OF ff[unfolded Inr]] by auto
    have last: "fail_fast tool r [Ran ?cmd (Some tmp) ?c] s'"
    proof (cases "?c = 0")
      case True
      then show ?thesis by (intro fail_fast_clean) simp
    next
      case False
      with r have "r = Inl (RuntimeError (''Command failed with exit code '' @ str_int ?c))"
        by simp
      from fail_fast_single_fail[OF run[unfolded this]] this show ?thesis by simp
    qed
    have ff': "fail_fast tool r ((Mkdir ?out # evs0 @ [?w]) @ [Ran ?cmd (Some tmp) ?c]) s'"
      using clean last by (rule fail_fast_append)
    have notemp: "\<forall>t. MkTemp t \<notin> set ((Mkdir ?out # evs0 @ [?w]) @ [Ran ?cmd (Some tmp) ?c])
                   \<and> RmTemp t \<notin> set ((Mkdir ?out # evs0 @ [?w]) @ [Ran ?cmd (Some tmp) ?c])"
      using only by auto
    have ok: "\<forall>cmd w. Ran cmd (Some w) 0 \<in> set ((Mkdir ?out # evs0 @ [?w]) @ [Ran ?cmd (Some tmp) ?c])
                \<longrightarrow> r = Inr ()"
      using only r by auto
    from t ff' notemp ok show ?thesis by blast
  qed
qed

lemma check_outputs_trace [simp]: "trace (snd (check_outputs a s)) = trace s"
  by (simp add: check_outputs_def)

lemma check_outputs_fsys [simp]: "fsys (snd (check_outputs a s)) = fsys s"
  by (simp add: check_outputs_def)

lemma check_outputs_result:
  "fst (check_outputs a s)
     = (if \<not> path_exists (fsys s) (out_mxl a)
        then Inl (SystemExit (''Output MXL not created: '' @ out_mxl a))
        else if \<not> path_exists (fsys s) (out_pdf a)
        then Inl (SystemExit (''Output PDF not created: '' @ out_pdf a))
        else Inr ())"
  by (simp add: check_outputs_def)

lemma first_missing_SystemExit: "first_missing fs ps = Some e \<Longrightarrow> \<exists>m. e = SystemExit m"
  by (induction fs ps rule: first_missing.induct) (auto split: if_splits)

text \<open>The three ways a run of main ends.\<close>

lemma main_cases:
  obtains (invalid) m where "main tool tmp a fs0 = (Inl (SystemExit m), init_state fs0)"
  | (failed) e s4 evs where
      "main tool tmp a fs0 = (Inl e, emit (RmTemp tmp) s4)"
      "trace s4 = [Mkdir (path_parent (out_mxl a)), Mkdir (path_parent (out_pdf a)), MkTemp tmp] @ evs"
      "\<forall>t. MkTemp t \<notin> set evs \<and> RmTemp t \<notin> set evs"
      "fail_fast tool (Inl e :: error + unit) evs s4"
      "\<forall>cmd w. Ran cmd (Some w) 0 \<notin> set evs"
  | (checked) s4 evs where
      "main tool tmp a fs0 = check_outputs a (emit (RmTemp tmp) s4)"
      "trace s4 = [Mkdir (path_parent (out_mxl a)), Mkdir (path_parent (out_pdf a)), MkTemp tmp] @ evs"
      "\<forall>t. MkTemp t \<notin> set evs \<and> RmTemp t \<notin> set evs"
      "\<forall>cmd cwd c. Ran cmd cwd c \<in> set evs \<longrightarrow> c = 0"
proof (cases "path_exists fs0 (pdf_in a)")
  case False
  then have "main tool tmp a fs0 = (Inl (SystemExit (''PDF not found: '' @ pdf_in a)), init_state fs0)"
    by (simp add: main_def)
  then show ?thesis by (rule invalid)
next
  case True
  let ?tools = "[(audiveris_exe a, ''Audiveris.exe''), (musescore_exe a, ''MuseScore.exe''),
                 (plugin_qml a, ''plugin qml'')]"
  show ?thesis
  proof (cases "first_missing fs0 ?tools")
    case (Some e)
    from first_missing_SystemExit[OF Some] obtain m where "e = SystemExit m" ..
    with True Some have "main tool tmp a fs0 = (Inl (SystemExit m), init_state fs0)"
      by (simp add: main_def)
    then show ?thesis by (rule invalid)
  next
    case None
    let ?s3 = "emit (MkTemp tmp) (emit (Mkdir (path_parent (out_pdf a)))
                 (emit (Mkdir (path_parent (out_mxl a))) (init_state fs0)))"
    obtain r s4 where b: "with_body tool a tmp ?s3 = (r, s4)"
      by (cases "with_body tool a tmp ?s3")
    from with_body_shape[OF b] obtain evs where
      t: "trace s4 = trace ?s3 @ evs"
      and nt: "\<forall>t. MkTemp t \<notin> set evs \<and> RmTemp t \<notin> set evs"
      and ff: "fail_fast tool r evs s4"
      and ok: "\<forall>cmd w. Ran cmd (Some w) 0 \<in> set evs \<longrightarrow> r = Inr ()"
      by blast
    have t': "trace s4 = [Mkdir (path_parent (out_mxl a)), Mkdir (path_parent (out_pdf a)), MkTemp tmp] @ evs"
      using t by (simp add: init_state_def)
    show ?thesis
    proof (cases r)
      case (Inl e)
      with True None b have m: "main tool tmp a fs0 = (Inl e, emit (RmTemp tmp) s4)"
        by (simp add: main_def)
      have "\<forall>cmd w. Ran cmd (Some w) 0 \<notin> set evs" using ok Inl by auto
      with m t' nt ff[unfolded Inl] show ?thesis by (rule failed)
    next
      case (Inr u)
      with True None b have m: "main tool tmp a fs0 = check_outputs a (emit (RmTemp tmp) s4)"
        by (simp add: main_def)
      have "\<forall>cmd cwd c. Ran cmd cwd c \<in> set evs \<longrightarrow> c = 0"
        using fail_fast_Inr[OF ff[unfolded Inr]] by blast
      with m t' nt show ?thesis by (rule checked)
    qed
  qed
qed

lemma main_failure_last:
  assumes "Ran cmd cwd c \<in> set (trace (snd (main tool tmp a fs0)))" and "c \<noteq> 0"
  shows "fst (main tool tmp a fs0)
           = Inl (RuntimeError (''Command failed with exit code '' @ str_int c))
         \<and> (\<exists>pre. trace (snd (main tool tmp a fs0)) = pre @ [Ran cmd cwd c, RmTemp tmp]
                \<and> (\<forall>cmd' cwd' c'. Ran cmd' cwd' c' \<in> set pre \<longrightarrow> c' = 0))"
proof (cases rule: main_cases[of tool tmp a fs0])
  case (invalid m)
  with assms show ?thesis by (simp add: init_state_def)
next
  case (failed e s4 evs)
  let ?hd = "[Mkdir (path_parent (out_mxl a)), Mkdir (path_parent (out_pdf a)), MkTemp tmp]"
  from assms(1) failed(1,2) have "Ran cmd cwd c \<in> set evs" by auto
  with failed(4) assms(2) obtain pre where
    e: "e = RuntimeError (''Command failed with exit code '' @ str_int c)"
    and p: "evs = pre @ [Ran cmd cwd c]"
    and z: "\<forall>cmd' cwd' c'. Ran cmd' cwd' c' \<in> set pre \<longrightarrow> c' = 0"
    unfolding fail_fast_def by blast
  have t: "trace (snd (main tool tmp a fs0)) = (?hd @ pre) @ [Ran cmd cwd c, RmTemp tmp]"
    using failed(1,2) p by simp
  have cl: "\<forall>cmd' cwd' c'. Ran cmd' cwd' c' \<in> set (?hd @ pre) \<longrightarrow> c' = 0"
    using z by auto
  have r: "fst (main tool tmp a fs0)
             = Inl (RuntimeError (''Command failed with exit code '' @ str_int c))"
    using failed(1) e by simp
  from t cl have "\<exists>pre. trace (snd (main tool tmp a fs0)) = pre @ [Ran cmd cwd c, RmTemp tmp]
                \<and> (\<forall>cmd' cwd' c'. Ran cmd' cwd' c' \<in> set pre \<longrightarrow> c' = 0)"
    by (intro exI[of _ "?hd @ pre"] conjI)
  with r show ?thesis by (rule conjI)
next
  case (checked s4 evs)
  from assms(1) checked(1,2) have "Ran cmd cwd c \<in> set evs" by auto
  with checked(4) have "c = 0" by blast
  with assms(2) show ?thesis by simp
qed

lemma main_failure_state:
  assumes "Ran cmd cwd c \<in> set (trace (snd (main tool tmp a fs0)))" and "c \<noteq> 0"
  shows "\<exists>s0. snd (main tool tmp a fs0) = emit (RmTemp tmp) (snd (run_cmd tool cmd cwd s0))
              \<and> returncode (fst (tool cmd cwd (fsys s0))) = c"
proof (cases rule: main_cases[of tool tmp a fs0])
  case (invalid m)
  with assms show ?thesis by (simp add: init_state_def)
next
  case (failed e s4 evs)
  from assms(1) failed(1,2) have "Ran cmd cwd c \<in> set evs" by auto
  with failed(4) assms(2) obtain s0 where "s4 = snd (run_cmd tool cmd cwd s0)"
    and "returncode (fst (tool cmd cwd (fsys s0))) = c"
    unfolding fail_fast_def by blast
  with failed(1) show ?thesis by auto
next
  case (checked s4 evs)
  from assms(1) checked(1,2) have "Ran cmd cwd c \<in> set evs" by auto
  with checked(4) have "c = 0" by blast
  with assms(2) show ?thesis by simp
qed

lemma main_workspace:
  "trace (snd (main tool tmp a fs0)) = []
   \<or> (\<exists>mid. trace (snd (main tool tmp a fs0))
               = [Mkdir (path_parent (out_mxl a)), Mkdir (path_parent (out_pdf a)), MkTemp tmp]
                 @ mid @ [RmTemp tmp]
             \<and> (\<forall>t. MkTemp t \<notin> set mid \<and> RmTemp t \<notin> set mid))"
proof (cases rule: main_cases[of tool tmp a fs0])
  case (invalid m)
  then show ?thesis by (simp add: init_state_def)
next
  case (failed e s4 evs)
  then show ?thesis by simp
next
  case (checked s4 evs)
  then show ?thesis by simp
qed

subsection \<open>A failing child ends the run; the workspace is always removed\<close>

text \<open>
  Claim C5. A run of \<open>main\<close> either does nothing to the outside world (an input is
  missing, the workspace was never created) or creates the workspace once and removes it
  as its last action, on success as on failure. When a child process returns a code
  other than zero, the run fails with the error raised for that code, every child before
  it had returned zero, and nothing at all is done after the failing child but the removal
  of the workspace: the final state of the run is the state in which \<open>run_cmd\<close> left the
  failing process (its trace, its console and its file system), with the removal of the
  workspace added. So no further process runs, no job file is written, no output is
  validated with any effect and nothing is reported.
\<close>

theorem main_fail_fast_cleanup:
  "(trace (snd (main tool tmp a fs0)) = []
    \<or> (\<exists>mid. trace (snd (main tool tmp a fs0))
               = [Mkdir (path_parent (out_mxl a)), Mkdir (path_parent (out_pdf a)), MkTemp tmp]
                 @ mid @ [RmTemp tmp]
             \<and> (\<forall>t. MkTemp t \<notin> set mid \<and> RmTemp t \<notin> set mid)))
   \<and> (\<forall>cmd cwd c. Ran cmd cwd c \<in> set (trace (snd (main tool tmp a fs0))) \<and> c \<noteq> 0 \<longrightarrow>
         fst (main tool tmp a fs0)
           = Inl (RuntimeError (''Command failed with exit code '' @ str_int c))
         \<and> (\<exists>pre. trace (snd (main tool tmp a fs0)) = pre @ [Ran cmd cwd c, RmTemp tmp]
                \<and> (\<forall>cmd' cwd' c'. Ran cmd' cwd' c' \<in> set pre \<longrightarrow> c' = 0))
         \<and> (\<exists>s0. snd (main tool tmp a fs0) = emit (RmTemp tmp) (snd (run_cmd tool cmd cwd s0))
                \<and> returncode (fst (tool cmd cwd (fsys s0))) = c))"
proof (rule conjI)
  show "trace (snd (main tool tmp a fs0)) = []
    \<or> (\<exists>mid. trace (snd (main tool tmp a fs0))
               = [Mkdir (path_parent (out_mxl a)), Mkdir (path_parent (out_pdf a)), MkTemp tmp]
                 @ mid @ [RmTemp tmp]
             \<and> (\<forall>t. MkTemp t \<notin> set mid \<and> RmTemp t \<notin> set mid))"
    by (rule main_workspace)
next
  show "\<forall>cmd cwd c. Ran cmd cwd c \<in> set (trace (snd (main tool tmp a fs0))) \<and> c \<noteq> 0 \<longrightarrow>
         fst (main tool tmp a fs0)
           = Inl (RuntimeError (''Command failed with exit code '' @ str_int c))
         \<and> (\<exists>pre. trace (snd (main tool tmp a fs0)) = pre @ [Ran cmd cwd c, RmTemp tmp]
                \<and> (\<forall>cmd' cwd' c'. Ran cmd' cwd' c' \<in> set pre \<longrightarrow> c' = 0))
         \<and> (\<exists>s0. snd (main tool tmp a fs0) = emit (RmTemp tmp) (snd (run_cmd tool cmd cwd s0))
                \<and> returncode (fst (tool cmd cwd (fsys s0))) = c)"
  proof (intro allI impI)
    fix cmd cwd c
    assume h: "Ran cmd cwd c \<in> set (trace (snd (main tool tmp a fs0))) \<and> c \<noteq> 0"
    then have m: "Ran cmd cwd c \<in> set (trace (snd (main tool tmp a fs0)))" and n: "c \<noteq> 0"
      by simp_all
    from main_failure_last[OF m n] main_failure_state[OF m n]
    show "fst (main tool tmp a fs0)
           = Inl (RuntimeError (''Command failed with exit code '' @ str_int c))
         \<and> (\<exists>pre. trace (snd (main tool tmp a fs0)) = pre @ [Ran cmd cwd c, RmTemp tmp]
                \<and> (\<forall>cmd' cwd' c'. Ran cmd' cwd' c' \<in> set pre \<longrightarrow> c' = 0))
         \<and> (\<exists>s0. snd (main tool tmp a fs0) = emit (RmTemp tmp) (snd (run_cmd tool cmd cwd s0))
                \<and> returncode (fst (tool cmd cwd (fsys s0))) = c)"
      by simp
  qed
qed

theorem main_fail_fast_cleanup_witness:
  "Ran [''/opt/mscore'', ''-j'', ''/tmp/omr_tmp_a1/job.json''] (Some ''/tmp/omr_tmp_a1'') 3
     \<in> set (trace (snd (main (ex_tool 3 [''/o/score.mxl'', ''/o/score.pdf'']) ex_tmp ex_args ex_fs0)))
   \<and> fst (main (ex_tool 3 [''/o/score.mxl'', ''/o/score.pdf'']) ex_tmp ex_args ex_fs0)
       = Inl (RuntimeError ''Command failed with exit code 3'')
   \<and> (\<exists>pre. trace (snd (main (ex_tool 3 [''/o/score.mxl'', ''/o/score.pdf'']) ex_tmp ex_args ex_fs0))
              = pre @ [Ran [''/opt/mscore'', ''-j'', ''/tmp/omr_tmp_a1/job.json'']
                         (Some ''/tmp/omr_tmp_a1'') 3,
                       RmTemp ex_tmp])
   \<and> last (console (snd (main (ex_tool 3 [''/o/score.mxl'', ''/o/score.pdf'']) ex_tmp ex_args ex_fs0)))
       = ''\<newline>[RUN] /opt/mscore -j /tmp/omr_tmp_a1/job.json''"
proof -
  let ?t = "ex_tool 3 [''/o/score.mxl'', ''/o/score.pdf'']"
  let ?ev = "Ran [''/opt/mscore'', ''-j'', ''/tmp/omr_tmp_a1/job.json''] (Some ''/tmp/omr_tmp_a1'') 3"
  have h: "?ev \<in> set (trace (snd (main ?t ex_tmp ex_args ex_fs0)))"
    by code_simp
  have n: "(3::int) \<noteq> 0" by simp
  have s: "str_int 3 = ''3''" by code_simp
  have c: "last (console (snd (main ?t ex_tmp ex_args ex_fs0)))
             = ''\<newline>[RUN] /opt/mscore -j /tmp/omr_tmp_a1/job.json''"
    by code_simp
  from main_fail_fast_cleanup[of ?t ex_tmp ex_args ex_fs0] h n
  have "fst (main ?t ex_tmp ex_args ex_fs0)
           = Inl (RuntimeError (''Command failed with exit code '' @ str_int 3))
         \<and> (\<exists>pre. trace (snd (main ?t ex_tmp ex_args ex_fs0)) = pre @ [?ev, RmTemp ex_tmp]
                \<and> (\<forall>cmd' cwd' c'. Ran cmd' cwd' c' \<in> set pre \<longrightarrow> c' = 0))"
    by blast
  with h s c show ?thesis by auto
qed

subsection \<open>What the error of a failing command carries\<close>

text \<open>
  Claim C6 as stated fails: the error raised for a failing command does not carry the
  command. Two different commands that end with the same code raise the same
  \<^verbatim>\<open>RuntimeError\<close>, and its message holds no part of either command.
\<close>

theorem run_cmd_error_omits_command:
  "fst (run_cmd ex_failing [''/opt/audiveris'', ''-batch''] None (init_state ex_fs0))
     = Inl (RuntimeError ''Command failed with exit code 3'')
   \<and> fst (run_cmd ex_failing [''/opt/mscore'', ''-j'', ''job.json''] None (init_state ex_fs0))
     = Inl (RuntimeError ''Command failed with exit code 3'')
   \<and> \<not> sublist ''/opt/audiveris'' ''Command failed with exit code 3''
   \<and> \<not> sublist ''/opt/mscore'' ''Command failed with exit code 3''"
  by code_simp

text \<open>
  Claim C6, amended. For every command vector, \<open>run_cmd\<close> starts the process once. When
  it returns a code other than zero, \<open>run_cmd\<close> raises a \<^verbatim>\<open>RuntimeError\<close> whose message
  carries the code; the command is only printed to the console before the process starts.
  When the code is zero, \<open>run_cmd\<close> returns normally. In \<open>main\<close> the failure is fatal and
  nothing is retried: the result of the run is that error, every process before the
  failing one had returned zero, and only the removal of the workspace follows it.
\<close>

theorem run_cmd_exit_code:
  "fst (run_cmd tool cmd cwd s)
     = (if returncode (fst (tool cmd cwd (fsys s))) \<noteq> 0
        then Inl (RuntimeError (''Command failed with exit code ''
                                @ str_int (returncode (fst (tool cmd cwd (fsys s))))))
        else Inr ())
   \<and> trace (snd (run_cmd tool cmd cwd s))
       = trace s @ [Ran cmd cwd (returncode (fst (tool cmd cwd (fsys s))))]
   \<and> (\<exists>rest. console (snd (run_cmd tool cmd cwd s))
                = console s @ [''\<newline>[RUN] '' @ join '' '' cmd] @ rest)
   \<and> (\<forall>tmp a fs0 cmd' cwd' c.
         Ran cmd' cwd' c \<in> set (trace (snd (main tool tmp a fs0))) \<and> c \<noteq> 0 \<longrightarrow>
           fst (main tool tmp a fs0)
             = Inl (RuntimeError (''Command failed with exit code '' @ str_int c))
           \<and> (\<exists>pre. trace (snd (main tool tmp a fs0)) = pre @ [Ran cmd' cwd' c, RmTemp tmp]
                  \<and> (\<forall>cmd'' cwd'' c''. Ran cmd'' cwd'' c'' \<in> set pre \<longrightarrow> c'' = 0)))"
proof (intro conjI)
  show "fst (run_cmd tool cmd cwd s)
     = (if returncode (fst (tool cmd cwd (fsys s))) \<noteq> 0
        then Inl (RuntimeError (''Command failed with exit code ''
                                @ str_int (returncode (fst (tool cmd cwd (fsys s))))))
        else Inr ())"
    by (rule run_cmd_result)
next
  show "trace (snd (run_cmd tool cmd cwd s))
       = trace s @ [Ran cmd cwd (returncode (fst (tool cmd cwd (fsys s))))]"
    by (rule run_cmd_trace)
next
  show "\<exists>rest. console (snd (run_cmd tool cmd cwd s))
                = console s @ [''\<newline>[RUN] '' @ join '' '' cmd] @ rest"
    by (simp add: run_cmd_def Let_def py_print_def emit_def)
next
  show "\<forall>tmp a fs0 cmd' cwd' c.
         Ran cmd' cwd' c \<in> set (trace (snd (main tool tmp a fs0))) \<and> c \<noteq> 0 \<longrightarrow>
           fst (main tool tmp a fs0)
             = Inl (RuntimeError (''Command failed with exit code '' @ str_int c))
           \<and> (\<exists>pre. trace (snd (main tool tmp a fs0)) = pre @ [Ran cmd' cwd' c, RmTemp tmp]
                  \<and> (\<forall>cmd'' cwd'' c''. Ran cmd'' cwd'' c'' \<in> set pre \<longrightarrow> c'' = 0))"
  proof (intro allI impI)
    fix tmp a fs0 cmd' cwd' c
    assume "Ran cmd' cwd' c \<in> set (trace (snd (main tool tmp a fs0))) \<and> c \<noteq> 0"
    then have m: "Ran cmd' cwd' c \<in> set (trace (snd (main tool tmp a fs0)))" and n: "c \<noteq> 0"
      by simp_all
    from m n show "fst (main tool tmp a fs0)
             = Inl (RuntimeError (''Command failed with exit code '' @ str_int c))
           \<and> (\<exists>pre. trace (snd (main tool tmp a fs0)) = pre @ [Ran cmd' cwd' c, RmTemp tmp]
                  \<and> (\<forall>cmd'' cwd'' c''. Ran cmd'' cwd'' c'' \<in> set pre \<longrightarrow> c'' = 0))"
      by (rule main_failure_last)
  qed
qed

theorem run_cmd_exit_code_witness:
  "fst (run_cmd ex_failing [''/opt/audiveris'', ''-batch''] None (init_state ex_fs0))
     = Inl (RuntimeError ''Command failed with exit code 3'')
   \<and> trace (snd (run_cmd ex_failing [''/opt/audiveris'', ''-batch''] None (init_state ex_fs0)))
     = [Ran [''/opt/audiveris'', ''-batch''] None 3]
   \<and> fst (run_cmd (ex_tool 0 []) [''/opt/mscore'', ''-j'', ''job.json''] None (init_state ex_fs0))
     = Inr ()
   \<and> Ran [''/opt/mscore'', ''-j'', ''/tmp/omr_tmp_a1/job.json''] (Some ''/tmp/omr_tmp_a1'') 3
       \<in> set (trace (snd (main (ex_tool 3 []) ex_tmp ex_args ex_fs0)))
   \<and> fst (main (ex_tool 3 []) ex_tmp ex_args ex_fs0)
       = Inl (RuntimeError ''Command failed with exit code 3'')"
proof -
  let ?ev = "Ran [''/opt/mscore'', ''-j'', ''/tmp/omr_tmp_a1/job.json''] (Some ''/tmp/omr_tmp_a1'') 3"
  have a: "returncode (fst (ex_failing [''/opt/audiveris'', ''-batch''] None (fsys (init_state ex_fs0)))) = 3"
    by code_simp
  have b: "returncode (fst (ex_tool 0 [] [''/opt/mscore'', ''-j'', ''job.json''] None (fsys (init_state ex_fs0)))) = 0"
    by code_simp
  have s: "str_int 3 = ''3''" by code_simp
  have t: "trace (init_state ex_fs0) = []" by (simp add: init_state_def)
  have h: "?ev \<in> set (trace (snd (main (ex_tool 3 []) ex_tmp ex_args ex_fs0)))"
    by code_simp
  have n: "(3::int) \<noteq> 0" by simp
  note one = run_cmd_exit_code[of ex_failing "[''/opt/audiveris'', ''-batch'']" None "init_state ex_fs0"]
  note two = run_cmd_exit_code[of "ex_tool 0 []" "[''/opt/mscore'', ''-j'', ''job.json'']" None
                "init_state ex_fs0"]
  note three = run_cmd_exit_code[of "ex_tool 3 []" "[]" None "init_state ex_fs0"]
  from three h n have m: "fst (main (ex_tool 3 []) ex_tmp ex_args ex_fs0)
       = Inl (RuntimeError (''Command failed with exit code '' @ str_int 3))"
    by blast
  from one have 1: "fst (run_cmd ex_failing [''/opt/audiveris'', ''-batch''] None (init_state ex_fs0))
     = Inl (RuntimeError ''Command failed with exit code 3'')"
    by (simp add: a s)
  from one have 2: "trace (snd (run_cmd ex_failing [''/opt/audiveris'', ''-batch''] None (init_state ex_fs0)))
     = [Ran [''/opt/audiveris'', ''-batch''] None 3]"
    by (simp add: a t)
  from two have 3: "fst (run_cmd (ex_tool 0 []) [''/opt/mscore'', ''-j'', ''job.json''] None (init_state ex_fs0))
     = Inr ()"
    by (simp add: b)
  from m have 4: "fst (main (ex_tool 3 []) ex_tmp ex_args ex_fs0)
       = Inl (RuntimeError ''Command failed with exit code 3'')"
    by (simp add: s)
  from 1 2 3 h 4 show ?thesis by (intro conjI)
qed

subsection \<open>The check of the two output files\<close>

text \<open>
  Claim C7 as stated fails: when both output files are absent after the editor returned
  zero, the error names the notation file only; the path of the PDF is not in it.
\<close>

theorem main_output_check_first_only:
  "Ran [''/opt/mscore'', ''-j'', ''/tmp/omr_tmp_a1/job.json''] (Some ''/tmp/omr_tmp_a1'') 0
     \<in> set (trace (snd (main (ex_tool 0 []) ex_tmp ex_args ex_fs0)))
   \<and> \<not> path_exists (fsys (snd (main (ex_tool 0 []) ex_tmp ex_args ex_fs0))) (out_mxl ex_args)
   \<and> \<not> path_exists (fsys (snd (main (ex_tool 0 []) ex_tmp ex_args ex_fs0))) (out_pdf ex_args)
   \<and> out_pdf ex_args = ''/o/score.pdf''
   \<and> fst (main (ex_tool 0 []) ex_tmp ex_args ex_fs0)
       = Inl (SystemExit ''Output MXL not created: /o/score.mxl'')
   \<and> \<not> sublist ''/o/score.pdf'' ''Output MXL not created: /o/score.mxl''"
  by code_simp

text \<open>
  Claim C7, amended. After the notation editor (the one process run with the workspace as
  working directory) has returned zero, \<open>main\<close> checks the two output files in order:
  when the notation file is absent it fails naming the notation file; otherwise, when
  the PDF is absent, it fails naming the PDF; otherwise it succeeds. So the error names
  the first absent output.
\<close>

theorem main_output_check:
  assumes "Ran cmd (Some w) 0 \<in> set (trace (snd (main tool tmp a fs0)))"
  shows "fst (main tool tmp a fs0)
           = (if \<not> path_exists (fsys (snd (main tool tmp a fs0))) (out_mxl a)
              then Inl (SystemExit (''Output MXL not created: '' @ out_mxl a))
              else if \<not> path_exists (fsys (snd (main tool tmp a fs0))) (out_pdf a)
              then Inl (SystemExit (''Output PDF not created: '' @ out_pdf a))
              else Inr ())"
proof (cases rule: main_cases[of tool tmp a fs0])
  case (invalid m)
  with assms show ?thesis by (simp add: init_state_def)
next
  case (failed e s4 evs)
  with assms show ?thesis by auto
next
  case (checked s4 evs)
  then show ?thesis by (simp add: check_outputs_result)
qed

theorem main_output_check_witness:
  "Ran [''/opt/mscore'', ''-j'', ''/tmp/omr_tmp_a1/job.json''] (Some ''/tmp/omr_tmp_a1'') 0
     \<in> set (trace (snd (main (ex_tool 0 [''/o/score.mxl'']) ex_tmp ex_args ex_fs0)))
   \<and> path_exists (fsys (snd (main (ex_tool 0 [''/o/score.mxl'']) ex_tmp ex_args ex_fs0))) ''/o/score.mxl''
   \<and> fst (main (ex_tool 0 [''/o/score.mxl'']) ex_tmp ex_args ex_fs0)
       = Inl (SystemExit ''Output PDF not created: /o/score.pdf'')"
proof -
  let ?m = "main (ex_tool 0 [''/o/score.mxl'']) ex_tmp ex_args ex_fs0"
  have h: "Ran [''/opt/mscore'', ''-j'', ''/tmp/omr_tmp_a1/job.json''] (Some ''/tmp/omr_tmp_a1'') 0
             \<in> set (trace (snd ?m))"
    by code_simp
  have x: "path_exists (fsys (snd ?m)) ''/o/score.mxl''" by code_simp
  have y: "\<not> path_exists (fsys (snd ?m)) ''/o/score.pdf''" by code_simp
  have a: "out_mxl ex_args = ''/o/score.mxl''" "out_pdf ex_args = ''/o/score.pdf''"
    by (simp_all add: ex_args_def)
  from main_output_check[OF h] x y h show ?thesis
    by (simp add: a)
qed

section \<open>Properties of the Config Resolver\<close>

lemma load_dotenv_absent:
  "\<not> path_exists fs0 p \<Longrightarrow> load_dotenv fs0 p = Map.empty"
  by (simp add: load_dotenv_def)

lemma truthy_None [simp]: "\<not> truthy None"
  by (simp add: truthy_def)

lemma run_main_incomplete:
  assumes "\<not> (truthy (load_dotenv fs0 (r_dotenv_path ra) ''AUDIVERIS_EXE'')
             \<and> truthy (load_dotenv fs0 (r_dotenv_path ra) ''MUSESCORE_EXE'')
             \<and> truthy (load_dotenv fs0 (r_dotenv_path ra) ''JIANPU_QML''))"
  shows "run_main tool ra fs0
           = (Inl (SystemExit (missing_keys_message (r_dotenv_path ra))), init_state fs0)"
  using assms by (simp add: run_main_def Let_def)

lemma missing_keys_message_text:
  "missing_keys_message p
     = ''Missing one of these keys in .env:\<newline>  AUDIVERIS_EXE\<newline>  MUSESCORE_EXE\<newline>  JIANPU_QML\<newline>Loaded from: '' @ p"
  by (simp add: missing_keys_message_def)

subsection \<open>What the failure names when keys are missing\<close>

text \<open>
  Claim C4 as stated fails: with a configuration file that sets the engine and the editor
  and lacks only the plugin key, the failure names all three keys, among them the two
  that are present.
\<close>

theorem run_main_names_all_keys:
  "load_dotenv ex_env_fs ''/app/.env'' ''AUDIVERIS_EXE'' = Some ''/opt/audiveris''
   \<and> load_dotenv ex_env_fs ''/app/.env'' ''MUSESCORE_EXE'' = Some ''/opt/mscore''
   \<and> load_dotenv ex_env_fs ''/app/.env'' ''JIANPU_QML'' = None
   \<and> fst (run_main (ex_tool 0 []) ex_run_args ex_env_fs)
       = Inl (SystemExit ''Missing one of these keys in .env:\<newline>  AUDIVERIS_EXE\<newline>  MUSESCORE_EXE\<newline>  JIANPU_QML\<newline>Loaded from: /app/.env'')
   \<and> sublist ''AUDIVERIS_EXE'' ''Missing one of these keys in .env:\<newline>  AUDIVERIS_EXE\<newline>  MUSESCORE_EXE\<newline>  JIANPU_QML\<newline>Loaded from: /app/.env''
   \<and> sublist ''MUSESCORE_EXE'' ''Missing one of these keys in .env:\<newline>  AUDIVERIS_EXE\<newline>  MUSESCORE_EXE\<newline>  JIANPU_QML\<newline>Loaded from: /app/.env''"
proof (intro conjI)
  show "load_dotenv ex_env_fs ''/app/.env'' ''AUDIVERIS_EXE'' = Some ''/opt/audiveris''"
    by code_simp
  show "load_dotenv ex_env_fs ''/app/.env'' ''MUSESCORE_EXE'' = Some ''/opt/mscore''"
    by code_simp
  show "load_dotenv ex_env_fs ''/app/.env'' ''JIANPU_QML'' = None"
    by code_simp
  show "fst (run_main (ex_tool 0 []) ex_run_args ex_env_fs)
       = Inl (SystemExit ''Missing one of these keys in .env:\<newline>  AUDIVERIS_EXE\<newline>  MUSESCORE_EXE\<newline>  JIANPU_QML\<newline>Loaded from: /app/.env'')"
    by code_simp
  show "sublist ''AUDIVERIS_EXE'' ''Missing one of these keys in .env:\<newline>  AUDIVERIS_EXE\<newline>  MUSESCORE_EXE\<newline>  JIANPU_QML\<newline>Loaded from: /app/.env''"
    by code_simp
  show "sublist ''MUSESCORE_EXE'' ''Missing one of these keys in .env:\<newline>  AUDIVERIS_EXE\<newline>  MUSESCORE_EXE\<newline>  JIANPU_QML\<newline>Loaded from: /app/.env''"
    by code_simp
qed

text \<open>
  Claim C4, amended. Whenever at least one of the three required keys
  (\<^verbatim>\<open>AUDIVERIS_EXE\<close>, \<^verbatim>\<open>MUSESCORE_EXE\<close>, \<^verbatim>\<open>JIANPU_QML\<close>) is missing from the configuration,
  whichever subset it is, \<open>run_main\<close> fails before anything is done to the outside world
  (no directory made, no process started), and the failure is one fixed message that names
  all three required keys and the path of the configuration file.
\<close>

theorem run_main_missing_keys:
  assumes "\<exists>k\<in>{''AUDIVERIS_EXE'', ''MUSESCORE_EXE'', ''JIANPU_QML''}.
             load_dotenv fs0 (r_dotenv_path ra) k = None"
  shows "fst (run_main tool ra fs0)
           = Inl (SystemExit (''Missing one of these keys in .env:\<newline>  AUDIVERIS_EXE\<newline>  MUSESCORE_EXE\<newline>  JIANPU_QML\<newline>Loaded from: '' @ r_dotenv_path ra))
         \<and> trace (snd (run_main tool ra fs0)) = []"
proof -
  from assms have "\<not> (truthy (load_dotenv fs0 (r_dotenv_path ra) ''AUDIVERIS_EXE'')
             \<and> truthy (load_dotenv fs0 (r_dotenv_path ra) ''MUSESCORE_EXE'')
             \<and> truthy (load_dotenv fs0 (r_dotenv_path ra) ''JIANPU_QML''))"
    by auto
  from run_main_incomplete[OF this] show ?thesis
    by (simp add: missing_keys_message_text init_state_def)
qed

theorem run_main_missing_keys_witness:
  "load_dotenv ex_env_fs (r_dotenv_path ex_run_args) ''JIANPU_QML'' = None
   \<and> fst (run_main (ex_tool 0 []) ex_run_args ex_env_fs)
       = Inl (SystemExit ''Missing one of these keys in .env:\<newline>  AUDIVERIS_EXE\<newline>  MUSESCORE_EXE\<newline>  JIANPU_QML\<newline>Loaded from: /app/.env'')
   \<and> trace (snd (run_main (ex_tool 0 []) ex_run_args ex_env_fs)) = []"
proof -
  have n: "load_dotenv ex_env_fs (r_dotenv_path ex_run_args) ''JIANPU_QML'' = None"
    by code_simp
  then have h: "\<exists>k\<in>{''AUDIVERIS_EXE'', ''MUSESCORE_EXE'', ''JIANPU_QML''}.
             load_dotenv ex_env_fs (r_dotenv_path ex_run_args) k = None"
    by simp
  have p: "r_dotenv_path ex_run_args = ''/app/.env''" by (simp add: ex_run_args_def)
  from run_main_missing_keys[OF h, of "ex_tool 0 []"] n show ?thesis
    by (simp add: p)
qed

subsection \<open>A configuration file that does not exist\<close>

text \<open>
  Claim C10. For a configuration path that does not exist, \<open>load_dotenv\<close> returns the
  empty dictionary instead of failing, and \<open>run_main\<close> ends with the failure for missing
  keys, which names the three required keys and the configuration path; nothing has been
  done to the outside world.
\<close>

theorem missing_dotenv_reports_keys:
  assumes "\<not> path_exists fs0 (r_dotenv_path ra)"
  shows "load_dotenv fs0 (r_dotenv_path ra) = Map.empty
         \<and> run_main tool ra fs0
             = (Inl (SystemExit (''Missing one of these keys in .env:\<newline>  AUDIVERIS_EXE\<newline>  MUSESCORE_EXE\<newline>  JIANPU_QML\<newline>Loaded from: '' @ r_dotenv_path ra)),
                init_state fs0)"
proof -
  from assms have e: "load_dotenv fs0 (r_dotenv_path ra) = Map.empty"
    by (rule load_dotenv_absent)
  then have "\<not> (truthy (load_dotenv fs0 (r_dotenv_path ra) ''AUDIVERIS_EXE'')
             \<and> truthy (load_dotenv fs0 (r_dotenv_path ra) ''MUSESCORE_EXE'')
             \<and> truthy (load_dotenv fs0 (r_dotenv_path ra) ''JIANPU_QML''))"
    by simp
  from run_main_incomplete[OF this] e show ?thesis
    by (simp add: missing_keys_message_text)
qed

theorem missing_dotenv_reports_keys_witness:
  "path_exists ex_env_fs ''/app/none.env'' = False
   \<and> load_dotenv ex_env_fs ''/app/none.env'' = Map.empty
   \<and> fst (run_main (ex_tool 0 []) (ex_run_args\<lparr>r_dotenv_path := ''/app/none.env''\<rparr>) ex_env_fs)
       = Inl (SystemExit ''Missing one of these keys in .env:\<newline>  AUDIVERIS_EXE\<newline>  MUSESCORE_EXE\<newline>  JIANPU_QML\<newline>Loaded from: /app/none.env'')"
proof -
  let ?ra = "ex_run_args\<lparr>r_dotenv_path := ''/app/none.env''\<rparr>"
  have p: "r_dotenv_path ?ra = ''/app/none.env''" by simp
  have x: "path_exists ex_env_fs ''/app/none.env'' = False" by code_simp
  then have h: "\<not> path_exists ex_env_fs (r_dotenv_path ?ra)" by (simp add: p)
  from missing_dotenv_reports_keys[OF h, of "ex_tool 0 []"] x show ?thesis
    by (simp add: p)
qed

section \<open>Properties of the OMR Export Strategy inside the pipeline\<close>

subsection \<open>The strategy, case by case\<close>

lemma candidates_of_found:
  "newest_export fs d = Inr p \<Longrightarrow> candidates fs d \<noteq> []"
  by (auto simp: newest_export_def)

lemma omr_export_single:
  assumes "returncode (fst (tool (aud_cmd_1 a out) None (fsys s))) = 0"
    and "newest_export (snd (tool (aud_cmd_1 a out) None (fsys s))) out = Inr p"
  shows "fst (omr_export tool a out s) = Inr p"
    and "trace (snd (omr_export tool a out s)) = trace s @ [Ran (aud_cmd_1 a out) None 0]"
proof -
  obtain r1 s1 where run: "run_cmd tool (aud_cmd_1 a out) None s = (r1, s1)"
    by (cases "run_cmd tool (aud_cmd_1 a out) None s")
  from assms(1) run run_cmd_result[of tool "aud_cmd_1 a out" None s] have r1: "r1 = Inr ()"
    by simp
  note f = run_cmd_Inr[OF run[unfolded r1]]
  from run r1 f assms(2) have "omr_export tool a out s
      = (Inr p, py_print (''[INFO] Audiveris export (single-pass): '' @ p) s1)"
    by (simp add: omr_export_def)
  with f show "fst (omr_export tool a out s) = Inr p"
    and "trace (snd (omr_export tool a out s)) = trace s @ [Ran (aud_cmd_1 a out) None 0]"
    by simp_all
qed

lemma omr_export_unreadable:
  assumes "returncode (fst (tool (aud_cmd_1 a out) None (fsys s))) = 0"
    and "newest_export (snd (tool (aud_cmd_1 a out) None (fsys s))) out = Inl e"
    and "candidates (snd (tool (aud_cmd_1 a out) None (fsys s))) out \<noteq> []"
  shows "fst (omr_export tool a out s) = Inl e"
    and "trace (snd (omr_export tool a out s)) = trace s @ [Ran (aud_cmd_1 a out) None 0]"
proof -
  obtain r1 s1 where run: "run_cmd tool (aud_cmd_1 a out) None s = (r1, s1)"
    by (cases "run_cmd tool (aud_cmd_1 a out) None s")
  from assms(1) run run_cmd_result[of tool "aud_cmd_1 a out" None s] have r1: "r1 = Inr ()"
    by simp
  note f = run_cmd_Inr[OF run[unfolded r1]]
  from newest_export_error[OF assms(2)] assms(3) obtain q where "e = FileNotFoundError q"
    by blast
  with run r1 f assms(2) have "omr_export tool a out s = (Inl e, s1)"
    by (simp add: omr_export_def)
  with f show "fst (omr_export tool a out s) = Inl e"
    and "trace (snd (omr_export tool a out s)) = trace s @ [Ran (aud_cmd_1 a out) None 0]"
    by simp_all
qed

lemma omr_export_fallback:
  assumes "returncode (fst (tool (aud_cmd_1 a out) None (fsys s))) = 0"
    and "candidates (snd (tool (aud_cmd_1 a out) None (fsys s))) out = []"
  shows "\<exists>s1. omr_export tool a out s = second_pass tool a out s1
              \<and> trace s1 = trace s @ [Ran (aud_cmd_1 a out) None 0]
              \<and> fsys s1 = snd (tool (aud_cmd_1 a out) None (fsys s))"
proof -
  obtain r1 s1 where run: "run_cmd tool (aud_cmd_1 a out) None s = (r1, s1)"
    by (cases "run_cmd tool (aud_cmd_1 a out) None s")
  from assms(1) run run_cmd_result[of tool "aud_cmd_1 a out" None s] have r1: "r1 = Inr ()"
    by simp
  note f = run_cmd_Inr[OF run[unfolded r1]]
  from newest_export_Nil[OF assms(2)] run r1 f
  have "omr_export tool a out s = second_pass tool a out s1"
    by (simp add: omr_export_def)
  with f show ?thesis by blast
qed

lemma omr_export_no_book:
  assumes "returncode (fst (tool (aud_cmd_1 a out) None (fsys s))) = 0"
    and "candidates (snd (tool (aud_cmd_1 a out) None (fsys s))) out = []"
    and "newest_omr_book (snd (tool (aud_cmd_1 a out) None (fsys s))) out = Inl e"
  shows "fst (omr_export tool a out s) = Inl e"
    and "trace (snd (omr_export tool a out s)) = trace s @ [Ran (aud_cmd_1 a out) None 0]"
proof -
  from omr_export_fallback[of tool a out s, OF assms(1,2)] obtain s1 where
    o: "omr_export tool a out s = second_pass tool a out s1"
    and t: "trace s1 = trace s @ [Ran (aud_cmd_1 a out) None 0]"
    and f: "fsys s1 = snd (tool (aud_cmd_1 a out) None (fsys s))"
    by blast
  from assms(3) f have "second_pass tool a out s1 = (Inl e, s1)"
    by (simp add: second_pass_def)
  with o t show "fst (omr_export tool a out s) = Inl e"
    and "trace (snd (omr_export tool a out s)) = trace s @ [Ran (aud_cmd_1 a out) None 0]"
    by simp_all
qed

lemma omr_export_second:
  assumes "returncode (fst (tool (aud_cmd_1 a out) None (fsys s))) = 0"
    and "candidates (snd (tool (aud_cmd_1 a out) None (fsys s))) out = []"
    and "newest_omr_book (snd (tool (aud_cmd_1 a out) None (fsys s))) out = Inr book"
  shows "trace (snd (omr_export tool a out s))
           = trace s @ [Ran (aud_cmd_1 a out) None 0,
                        Ran (aud_cmd_2 a out book) None
                          (returncode (fst (tool (aud_cmd_2 a out book) None
                                              (snd (tool (aud_cmd_1 a out) None (fsys s))))))]"
    and "fst (omr_export tool a out s)
           = (if returncode (fst (tool (aud_cmd_2 a out book) None
                                    (snd (tool (aud_cmd_1 a out) None (fsys s))))) \<noteq> 0
              then Inl (RuntimeError (''Command failed with exit code ''
                      @ str_int (returncode (fst (tool (aud_cmd_2 a out book) None
                                                   (snd (tool (aud_cmd_1 a out) None (fsys s))))))))
              else newest_export (snd (tool (aud_cmd_2 a out book) None
                                         (snd (tool (aud_cmd_1 a out) None (fsys s))))) out)"
proof -
  let ?fs1 = "snd (tool (aud_cmd_1 a out) None (fsys s))"
  from omr_export_fallback[of tool a out s, OF assms(1,2)] obtain s1 where
    o: "omr_export tool a out s = second_pass tool a out s1"
    and t: "trace s1 = trace s @ [Ran (aud_cmd_1 a out) None 0]"
    and f: "fsys s1 = ?fs1"
    by blast
  let ?s2 = "py_print (''[INFO] Audiveris book found: '' @ book) s1"
  obtain r2 s3 where run: "run_cmd tool (aud_cmd_2 a out book) None ?s2 = (r2, s3)"
    by (cases "run_cmd tool (aud_cmd_2 a out book) None ?s2")
  have fs2: "fsys ?s2 = ?fs1" using f by simp
  have t3: "trace s3 = trace s @ [Ran (aud_cmd_1 a out) None 0,
                        Ran (aud_cmd_2 a out book) None
                          (returncode (fst (tool (aud_cmd_2 a out book) None ?fs1)))]"
    using run run_cmd_trace[of tool "aud_cmd_2 a out book" None ?s2] t fs2 by simp
  have f3: "fsys s3 = snd (tool (aud_cmd_2 a out book) None ?fs1)"
    using run run_cmd_fsys[of tool "aud_cmd_2 a out book" None ?s2] fs2 by simp
  have r2: "r2 = (if returncode (fst (tool (aud_cmd_2 a out book) None ?fs1)) \<noteq> 0
              then Inl (RuntimeError (''Command failed with exit code ''
                      @ str_int (returncode (fst (tool (aud_cmd_2 a out book) None ?fs1)))))
              else Inr ())"
    using run run_cmd_result[of tool "aud_cmd_2 a out book" None ?s2] fs2 by simp
  have sp: "second_pass tool a out s1
              = (case r2 of
                   Inl e \<Rightarrow> (Inl e, s3)
                 | Inr u \<Rightarrow>
                     (case newest_export (fsys s3) out of
                        Inl e \<Rightarrow> (Inl e, s3)
                      | Inr exported \<Rightarrow>
                          (Inr exported,
                           py_print (''[INFO] Audiveris export (two-pass): '' @ exported) s3)))"
    using assms(3) f run by (simp add: second_pass_def split: sum.splits)
  have "trace (snd (second_pass tool a out s1)) = trace s3"
    unfolding sp by (simp split: sum.splits)
  with o t3 show "trace (snd (omr_export tool a out s))
           = trace s @ [Ran (aud_cmd_1 a out) None 0,
                        Ran (aud_cmd_2 a out book) None
                          (returncode (fst (tool (aud_cmd_2 a out book) None ?fs1)))]"
    by simp
  have "fst (second_pass tool a out s1)
          = (case r2 of Inl e \<Rightarrow> Inl e | Inr u \<Rightarrow> newest_export (fsys s3) out)"
    unfolding sp by (simp split: sum.splits)
  with o r2 f3 show "fst (omr_export tool a out s)
           = (if returncode (fst (tool (aud_cmd_2 a out book) None ?fs1)) \<noteq> 0
              then Inl (RuntimeError (''Command failed with exit code ''
                      @ str_int (returncode (fst (tool (aud_cmd_2 a out book) None ?fs1)))))
              else newest_export (snd (tool (aud_cmd_2 a out book) None ?fs1)) out)"
    by simp
qed

subsection \<open>From the strategy to the whole run\<close>

lemma at_export_trace [simp]:
  "trace (at_export tmp a fs0)
     = [Mkdir (path_parent (out_mxl a)), Mkdir (path_parent (out_pdf a)), MkTemp tmp,
        Mkdir (path_join tmp ''audiveris_out'')]"
  by (simp add: at_export_def init_state_def)

lemma at_export_fsys [simp]: "fsys (at_export tmp a fs0) = fs0"
  by (simp add: at_export_def init_state_def)

lemma main_valid:
  assumes "path_exists fs0 (pdf_in a)" and "path_exists fs0 (audiveris_exe a)"
    and "path_exists fs0 (musescore_exe a)" and "path_exists fs0 (plugin_qml a)"
  shows "main tool tmp a fs0
           = (case with_body tool a tmp
                     (emit (MkTemp tmp)
                        (emit (Mkdir (path_parent (out_pdf a)))
                           (emit (Mkdir (path_parent (out_mxl a))) (init_state fs0)))) of
                (Inl e, s4) \<Rightarrow> (Inl e, emit (RmTemp tmp) s4)
              | (Inr u, s4) \<Rightarrow> check_outputs a (emit (RmTemp tmp) s4))"
  using assms by (simp add: main_def)

lemma main_export_failed:
  assumes "path_exists fs0 (pdf_in a)" and "path_exists fs0 (audiveris_exe a)"
    and "path_exists fs0 (musescore_exe a)" and "path_exists fs0 (plugin_qml a)"
    and "fst (omr_export tool a (path_join tmp ''audiveris_out'') (at_export tmp a fs0)) = Inl e"
  shows "fst (main tool tmp a fs0) = Inl e"
    and "trace (snd (main tool tmp a fs0))
           = trace (snd (omr_export tool a (path_join tmp ''audiveris_out'') (at_export tmp a fs0)))
             @ [RmTemp tmp]"
proof -
  obtain r s2 where o: "omr_export tool a (path_join tmp ''audiveris_out'') (at_export tmp a fs0)
                          = (r, s2)"
    by (cases "omr_export tool a (path_join tmp ''audiveris_out'') (at_export tmp a fs0)")
  with assms(5) have r: "r = Inl e" by simp
  from o r have "with_body tool a tmp
                     (emit (MkTemp tmp)
                        (emit (Mkdir (path_parent (out_pdf a)))
                           (emit (Mkdir (path_parent (out_mxl a))) (init_state fs0))))
                   = (Inl e, s2)"
    by (simp add: with_body_def Let_def at_export_def)
  with main_valid[OF assms(1-4)] have "main tool tmp a fs0 = (Inl e, emit (RmTemp tmp) s2)"
    by simp
  with o show "fst (main tool tmp a fs0) = Inl e"
    and "trace (snd (main tool tmp a fs0))
           = trace (snd (omr_export tool a (path_join tmp ''audiveris_out'') (at_export tmp a fs0)))
             @ [RmTemp tmp]"
    by simp_all
qed

lemma main_export_found:
  assumes "path_exists fs0 (pdf_in a)" and "path_exists fs0 (audiveris_exe a)"
    and "path_exists fs0 (musescore_exe a)" and "path_exists fs0 (plugin_qml a)"
    and "fst (omr_export tool a (path_join tmp ''audiveris_out'') (at_export tmp a fs0)) = Inr p"
  shows "\<exists>c. trace (snd (main tool tmp a fs0))
           = trace (snd (omr_export tool a (path_join tmp ''audiveris_out'') (at_export tmp a fs0)))
             @ [WroteJob (path_join tmp ''job.json'')
                  \<lparr>job_in = p, job_plugin = plugin_qml a, job_out = [out_mxl a, out_pdf a]\<rparr>,
                Ran [musescore_exe a, ''-j'', path_join tmp ''job.json''] (Some tmp) c,
                RmTemp tmp]"
proof -
  let ?job = "path_join tmp ''job.json''"
  let ?cmd = "[musescore_exe a, ''-j'', ?job]"
  obtain r s2 where o: "omr_export tool a (path_join tmp ''audiveris_out'') (at_export tmp a fs0)
                          = (r, s2)"
    by (cases "omr_export tool a (path_join tmp ''audiveris_out'') (at_export tmp a fs0)")
  with assms(5) have r: "r = Inr p" by simp
  let ?s3 = "build_job_json ?job p (out_mxl a) (out_pdf a) (plugin_qml a) s2"
  obtain r4 s4 where run: "run_cmd tool ?cmd (Some tmp) ?s3 = (r4, s4)"
    by (cases "run_cmd tool ?cmd (Some tmp) ?s3")
  have t4: "trace s4 = trace s2 @ [WroteJob ?job
                  \<lparr>job_in = p, job_plugin = plugin_qml a, job_out = [out_mxl a, out_pdf a]\<rparr>,
                Ran ?cmd (Some tmp) (returncode (fst (tool ?cmd (Some tmp) (fsys ?s3))))]"
    using run run_cmd_trace[of tool ?cmd "Some tmp" ?s3] by (simp add: build_job_json_def)
  from o r run have w: "with_body tool a tmp
                     (emit (MkTemp tmp)
                        (emit (Mkdir (path_parent (out_pdf a)))
                           (emit (Mkdir (path_parent (out_mxl a))) (init_state fs0))))
                   = (r4, s4)"
    by (simp add: with_body_def Let_def at_export_def)
  have "trace (snd (main tool tmp a fs0)) = trace s4 @ [RmTemp tmp]"
    using main_valid[OF assms(1-4)] w by (cases r4) simp_all
  with t4 o show ?thesis by simp
qed

lemma engine_commands_differ: "aud_cmd_1 a out \<noteq> aud_cmd_2 a out book"
  by (simp add: aud_cmd_1_def aud_cmd_2_def)

lemma engine_commands_differ': "aud_cmd_2 a out book \<noteq> aud_cmd_1 a out"
  by (simp add: aud_cmd_1_def aud_cmd_2_def)

subsection \<open>One pass or two\<close>

text \<open>
  Claim C1 as stated fails: the engine does not run a second time whenever the export
  lookup fails. After a transcription that leaves only a log file the lookup fails, no
  project book exists, and the run ends with the error of the book lookup after one
  engine run. After a transcription that leaves a project book and an \<^verbatim>\<open>.mxl\<close> link
  without a target the lookup fails with the \<^verbatim>\<open>FileNotFoundError\<close> of \<^verbatim>\<open>stat\<close>, which the
  handler does not catch: the run ends with that error after one engine run, although a
  book is there.
\<close>

theorem main_lookup_failure_without_second_run:
  "newest_export (snd (ex_log_only (aud_cmd_1 ex_args ex_out) None ex_fs0)) ex_out
     = Inl (RuntimeError ''No MusicXML export found under: /tmp/omr_tmp_a1/audiveris_out'')
   \<and> trace (snd (main ex_log_only ex_tmp ex_args ex_fs0))
       = [Mkdir ''/o'', Mkdir ''/o'', MkTemp ''/tmp/omr_tmp_a1'',
          Mkdir ''/tmp/omr_tmp_a1/audiveris_out'',
          Ran [''/opt/audiveris'', ''-batch'', ''-transcribe'', ''-output'',
               ''/tmp/omr_tmp_a1/audiveris_out'', ''/in/score.pdf''] None 0,
          RmTemp ''/tmp/omr_tmp_a1'']
   \<and> fst (main ex_log_only ex_tmp ex_args ex_fs0)
       = Inl (RuntimeError ''No .omr book found under: /tmp/omr_tmp_a1/audiveris_out\<newline>Created files:\<newline>/tmp/omr_tmp_a1/audiveris_out/score.log'')
   \<and> newest_export (snd (ex_dangling (aud_cmd_1 ex_args ex_out) None ex_fs0)) ex_out
       = Inl (FileNotFoundError ''/tmp/omr_tmp_a1/audiveris_out/link.mxl'')
   \<and> newest_omr_book (snd (ex_dangling (aud_cmd_1 ex_args ex_out) None ex_fs0)) ex_out
       = Inr ''/tmp/omr_tmp_a1/audiveris_out/score.omr''
   \<and> trace (snd (main ex_dangling ex_tmp ex_args ex_fs0))
       = [Mkdir ''/o'', Mkdir ''/o'', MkTemp ''/tmp/omr_tmp_a1'',
          Mkdir ''/tmp/omr_tmp_a1/audiveris_out'',
          Ran [''/opt/audiveris'', ''-batch'', ''-transcribe'', ''-output'',
               ''/tmp/omr_tmp_a1/audiveris_out'', ''/in/score.pdf''] None 0,
          RmTemp ''/tmp/omr_tmp_a1'']
   \<and> fst (main ex_dangling ex_tmp ex_args ex_fs0)
       = Inl (FileNotFoundError ''/tmp/omr_tmp_a1/audiveris_out/link.mxl'')"
proof (intro conjI)
  show "newest_export (snd (ex_log_only (aud_cmd_1 ex_args ex_out) None ex_fs0)) ex_out
     = Inl (RuntimeError ''No MusicXML export found under: /tmp/omr_tmp_a1/audiveris_out'')"
    by code_simp
  show "trace (snd (main ex_log_only ex_tmp ex_args ex_fs0))
       = [Mkdir ''/o'', Mkdir ''/o'', MkTemp ''/tmp/omr_tmp_a1'',
          Mkdir ''/tmp/omr_tmp_a1/audiveris_out'',
          Ran [''/opt/audiveris'', ''-batch'', ''-transcribe'', ''-output'',
               ''/tmp/omr_tmp_a1/audiveris_out'', ''/in/score.pdf''] None 0,
          RmTemp ''/tmp/omr_tmp_a1'']"
    by code_simp
  show "fst (main ex_log_only ex_tmp ex_args ex_fs0)
       = Inl (RuntimeError ''No .omr book found under: /tmp/omr_tmp_a1/audiveris_out\<newline>Created files:\<newline>/tmp/omr_tmp_a1/audiveris_out/score.log'')"
    by code_simp
  show "newest_export (snd (ex_dangling (aud_cmd_1 ex_args ex_out) None ex_fs0)) ex_out
       = Inl (FileNotFoundError ''/tmp/omr_tmp_a1/audiveris_out/link.mxl'')"
    by code_simp
  show "newest_omr_book (snd (ex_dangling (aud_cmd_1 ex_args ex_out) None ex_fs0)) ex_out
       = Inr ''/tmp/omr_tmp_a1/audiveris_out/score.omr''"
    by code_simp
  show "trace (snd (main ex_dangling ex_tmp ex_args ex_fs0))
       = [Mkdir ''/o'', Mkdir ''/o'', MkTemp ''/tmp/omr_tmp_a1'',
          Mkdir ''/tmp/omr_tmp_a1/audiveris_out'',
          Ran [''/opt/audiveris'', ''-batch'', ''-transcribe'', ''-output'',
               ''/tmp/omr_tmp_a1/audiveris_out'', ''/in/score.pdf''] None 0,
          RmTemp ''/tmp/omr_tmp_a1'']"
    by code_simp
  show "fst (main ex_dangling ex_tmp ex_args ex_fs0)
       = Inl (FileNotFoundError ''/tmp/omr_tmp_a1/audiveris_out/link.mxl'')"
    by code_simp
qed

text \<open>
  Claim C1, amended. Let the inputs exist and the transcription run return zero, leaving
  the file system \<open>fs1\<close>. The engine runs a second time, in export mode, if and only if
  the export lookup on \<open>fs1\<close> finds no candidate at all and the lookup of the project
  book on \<open>fs1\<close> returns a book. In detail: when the export lookup returns an artifact,
  that artifact goes into the job file after one engine run; when it fails on a candidate
  that \<^verbatim>\<open>stat\<close> cannot read, the whole run fails with that error after one engine run;
  when there is no candidate and the book lookup fails, the whole run fails with the
  error of the book lookup after one engine run (the error that reports the missing book
  when no \<^verbatim>\<open>.omr\<close> entry exists); when there is no candidate and a book is returned, that
  book is an \<^verbatim>\<open>.omr\<close> entry of greatest modification time among the \<^verbatim>\<open>.omr\<close> entries, the
  engine runs \<^verbatim>\<open>-batch -export -output\<close> on the output directory and that book, with the
  OPUS option between them unless \<open>no_opus\<close> is set, and, when this run returns zero, the
  export lookup is run again on the file system it leaves: its artifact goes into the job
  file, its failure fails the whole run.
\<close>

theorem main_export_decision:
  assumes "path_exists fs0 (pdf_in a)" and "path_exists fs0 (audiveris_exe a)"
    and "path_exists fs0 (musescore_exe a)" and "path_exists fs0 (plugin_qml a)"
    and "returncode (fst (tool (aud_cmd_1 a (path_join tmp ''audiveris_out'')) None fs0)) = 0"
  shows
    "let out = path_join tmp ''audiveris_out'';
         fs1 = snd (tool (aud_cmd_1 a out) None fs0);
         M = main tool tmp a fs0;
         start = [Mkdir (path_parent (out_mxl a)), Mkdir (path_parent (out_pdf a)), MkTemp tmp,
                  Mkdir out, Ran (aud_cmd_1 a out) None 0];
         job = (\<lambda>p. WroteJob (path_join tmp ''job.json'')
                        \<lparr>job_in = p, job_plugin = plugin_qml a, job_out = [out_mxl a, out_pdf a]\<rparr>);
         editor = [musescore_exe a, ''-j'', path_join tmp ''job.json'']
     in aud_cmd_1 a out
          = [audiveris_exe a, ''-batch'', ''-transcribe'', ''-output'', out]
            @ (if force a then [''-force''] else []) @ [pdf_in a]
        \<and> (\<forall>book. aud_cmd_2 a out book
              = [audiveris_exe a, ''-batch'', ''-export'', ''-output'', out]
                @ (if no_opus a then []
                   else [''-option'', ''org.audiveris.omr.sheet.BookManager.useOpus=true''])
                @ [book])
        \<and> ((\<exists>book c. Ran (aud_cmd_2 a out book) None c \<in> set (trace (snd M)))
             \<longleftrightarrow> (candidates fs1 out = [] \<and> (\<exists>book. newest_omr_book fs1 out = Inr book)))
        \<and> (case newest_export fs1 out of
              Inr p \<Rightarrow> (\<exists>c. trace (snd M) = start @ [job p, Ran editor (Some tmp) c, RmTemp tmp])
            | Inl e \<Rightarrow>
                if candidates fs1 out \<noteq> []
                then fst M = Inl e \<and> trace (snd M) = start @ [RmTemp tmp]
                else
                  (case newest_omr_book fs1 out of
                     Inl e' \<Rightarrow>
                       fst M = Inl e' \<and> trace (snd M) = start @ [RmTemp tmp]
                       \<and> (rglob fs1 out ''.omr'' = [] \<longrightarrow>
                            e' = RuntimeError (''No .omr book found under: '' @ out
                                   @ ''\<newline>Created files:\<newline>''
                                   @ join ''\<newline>'' (take 120 (listing fs1 out))))
                   | Inr book \<Rightarrow>
                       book \<in> set (listing fs1 out) \<and> suffix ''.omr'' (path_name book)
                       \<and> (\<exists>t. st_mtime fs1 book = Some t
                             \<and> (\<forall>q\<in>set (listing fs1 out). suffix ''.omr'' (path_name q)
                                   \<longrightarrow> (\<exists>u. st_mtime fs1 q = Some u \<and> u \<le> t)))
                       \<and> (if returncode (fst (tool (aud_cmd_2 a out book) None fs1)) \<noteq> 0
                           then fst M = Inl (RuntimeError (''Command failed with exit code ''
                                   @ str_int (returncode (fst (tool (aud_cmd_2 a out book) None fs1)))))
                                \<and> trace (snd M)
                                    = start @ [Ran (aud_cmd_2 a out book) None
                                                 (returncode (fst (tool (aud_cmd_2 a out book) None fs1))),
                                               RmTemp tmp]
                           else
                             (case newest_export (snd (tool (aud_cmd_2 a out book) None fs1)) out of
                                Inl e2 \<Rightarrow>
                                  fst M = Inl e2
                                  \<and> trace (snd M)
                                      = start @ [Ran (aud_cmd_2 a out book) None 0, RmTemp tmp]
                              | Inr p \<Rightarrow>
                                  (\<exists>c. trace (snd M)
                                         = start @ [Ran (aud_cmd_2 a out book) None 0, job p,
                                                    Ran editor (Some tmp) c, RmTemp tmp])))))"
proof -
  let ?out = "path_join tmp ''audiveris_out''"
  let ?S = "at_export tmp a fs0"
  let ?fs1 = "snd (tool (aud_cmd_1 a ?out) None fs0)"
  let ?M = "main tool tmp a fs0"
  let ?R = "omr_export tool a ?out ?S"
  let ?start = "[Mkdir (path_parent (out_mxl a)), Mkdir (path_parent (out_pdf a)), MkTemp tmp,
                 Mkdir ?out, Ran (aud_cmd_1 a ?out) None 0]"
  let ?job = "\<lambda>p. WroteJob (path_join tmp ''job.json'')
                    \<lparr>job_in = p, job_plugin = plugin_qml a, job_out = [out_mxl a, out_pdf a]\<rparr>"
  let ?editor = "[musescore_exe a, ''-j'', path_join tmp ''job.json'']"
  let ?second = "\<exists>book c. Ran (aud_cmd_2 a ?out book) None c \<in> set (trace (snd ?M))"
  note valid = assms(1-4)
  have ok: "returncode (fst (tool (aud_cmd_1 a ?out) None (fsys ?S))) = 0"
    using assms(5) by simp
  have fs: "snd (tool (aud_cmd_1 a ?out) None (fsys ?S)) = ?fs1" by simp
  have st: "trace ?S @ [Ran (aud_cmd_1 a ?out) None 0] = ?start" by simp
  have c1: "aud_cmd_1 a ?out
          = [audiveris_exe a, ''-batch'', ''-transcribe'', ''-output'', ?out]
            @ (if force a then [''-force''] else []) @ [pdf_in a]"
    by (simp add: aud_cmd_1_def)
  have c2: "\<forall>book. aud_cmd_2 a ?out book
              = [audiveris_exe a, ''-batch'', ''-export'', ''-output'', ?out]
                @ (if no_opus a then []
                   else [''-option'', ''org.audiveris.omr.sheet.BookManager.useOpus=true''])
                @ [book]"
    by (simp add: aud_cmd_2_def)
  have not_first: "Ran (aud_cmd_2 a ?out book) None c \<notin> set ?start" for book c
    using engine_commands_differ[of a ?out book] by auto

  have stop: "fst ?M = Inl e \<and> trace (snd ?M) = ?start @ [RmTemp tmp] \<and> \<not> ?second"
    if r: "fst ?R = Inl e" and t: "trace (snd ?R) = trace ?S @ [Ran (aud_cmd_1 a ?out) None 0]" for e
  proof -
    from main_export_failed[OF valid r] t st
    have m: "fst ?M = Inl e" "trace (snd ?M) = ?start @ [RmTemp tmp]" by simp_all
    from m(2) not_first have "\<not> ?second" by auto
    with m show ?thesis by simp
  qed

  have both: "(?second \<longleftrightarrow> (candidates ?fs1 ?out = [] \<and> (\<exists>book. newest_omr_book ?fs1 ?out = Inr book)))
    \<and> (case newest_export ?fs1 ?out of
              Inr p \<Rightarrow> (\<exists>c. trace (snd ?M) = ?start @ [?job p, Ran ?editor (Some tmp) c, RmTemp tmp])
            | Inl e \<Rightarrow>
                if candidates ?fs1 ?out \<noteq> []
                then fst ?M = Inl e \<and> trace (snd ?M) = ?start @ [RmTemp tmp]
                else
                  (case newest_omr_book ?fs1 ?out of
                     Inl e' \<Rightarrow>
                       fst ?M = Inl e' \<and> trace (snd ?M) = ?start @ [RmTemp tmp]
                       \<and> (rglob ?fs1 ?out ''.omr'' = [] \<longrightarrow>
                            e' = RuntimeError (''No .omr book found under: '' @ ?out
                                   @ ''\<newline>Created files:\<newline>''
                                   @ join ''\<newline>'' (take 120 (listing ?fs1 ?out))))
                   | Inr book \<Rightarrow>
                       book \<in> set (listing ?fs1 ?out) \<and> suffix ''.omr'' (path_name book)
                       \<and> (\<exists>t. st_mtime ?fs1 book = Some t
                             \<and> (\<forall>q\<in>set (listing ?fs1 ?out). suffix ''.omr'' (path_name q)
                                   \<longrightarrow> (\<exists>u. st_mtime ?fs1 q = Some u \<and> u \<le> t)))
                       \<and> (if returncode (fst (tool (aud_cmd_2 a ?out book) None ?fs1)) \<noteq> 0
                           then fst ?M = Inl (RuntimeError (''Command failed with exit code ''
                                   @ str_int (returncode (fst (tool (aud_cmd_2 a ?out book) None ?fs1)))))
                                \<and> trace (snd ?M)
                                    = ?start @ [Ran (aud_cmd_2 a ?out book) None
                                                 (returncode (fst (tool (aud_cmd_2 a ?out book) None ?fs1))),
                                               RmTemp tmp]
                           else
                             (case newest_export (snd (tool (aud_cmd_2 a ?out book) None ?fs1)) ?out of
                                Inl e2 \<Rightarrow>
                                  fst ?M = Inl e2
                                  \<and> trace (snd ?M)
                                      = ?start @ [Ran (aud_cmd_2 a ?out book) None 0, RmTemp tmp]
                              | Inr p \<Rightarrow>
                                  (\<exists>c. trace (snd ?M)
                                         = ?start @ [Ran (aud_cmd_2 a ?out book) None 0, ?job p,
                                                    Ran ?editor (Some tmp) c, RmTemp tmp])))))"
  proof (cases "newest_export ?fs1 ?out")
    case found: (Inr p)
    note e = omr_export_single[of tool a ?out ?S p, OF ok found[folded fs]]
    from main_export_found[OF valid e(1)] e(2) st obtain c where
      t: "trace (snd ?M) = ?start @ [?job p, Ran ?editor (Some tmp) c, RmTemp tmp]"
      by auto
    from t not_first have "\<not> ?second" by auto
    moreover have "candidates ?fs1 ?out \<noteq> []" using found by (rule candidates_of_found)
    ultimately show ?thesis using found t by auto
  next
    case failed: (Inl e)
    show ?thesis
    proof (cases "candidates ?fs1 ?out = []")
      case False
      note x = omr_export_unreadable[of tool a ?out ?S e, OF ok failed[folded fs] False[folded fs]]
      from stop[OF x] failed False show ?thesis by (simp add: engine_commands_differ')
    next
      case none: True
      show ?thesis
      proof (cases "newest_omr_book ?fs1 ?out")
        case nb: (Inl e')
        note x = omr_export_no_book[of tool a ?out ?S e', OF ok none[folded fs] nb[folded fs]]
        have "rglob ?fs1 ?out ''.omr'' = [] \<longrightarrow>
                e' = RuntimeError (''No .omr book found under: '' @ ?out
                       @ ''\<newline>Created files:\<newline>''
                       @ join ''\<newline>'' (take 120 (listing ?fs1 ?out)))"
          using nb newest_omr_book_Nil[of ?fs1 ?out] by auto
        with stop[OF x] failed none nb show ?thesis by (simp add: engine_commands_differ')
      next
        case b: (Inr book)
        let ?c2 = "returncode (fst (tool (aud_cmd_2 a ?out book) None ?fs1))"
        let ?fs2 = "snd (tool (aud_cmd_2 a ?out book) None ?fs1)"
        note x = omr_export_second[of tool a ?out ?S book, OF ok none[folded fs] b[folded fs]]
        have tr: "trace (snd ?R) = ?start @ [Ran (aud_cmd_2 a ?out book) None ?c2]"
          using x(1) by simp
        have res: "fst ?R = (if ?c2 \<noteq> 0
                             then Inl (RuntimeError (''Command failed with exit code '' @ str_int ?c2))
                             else newest_export ?fs2 ?out)"
          using x(2) by simp
        from newest_omr_book_greatest[OF b] have g: "book \<in> set (listing ?fs1 ?out)"
          "suffix ''.omr'' (path_name book)"
          "\<exists>t. st_mtime ?fs1 book = Some t
             \<and> (\<forall>q\<in>set (listing ?fs1 ?out). suffix ''.omr'' (path_name q)
                   \<longrightarrow> (\<exists>u. st_mtime ?fs1 q = Some u \<and> u \<le> t))"
          by (auto simp: rglob_def)
        have ran: "Ran (aud_cmd_2 a ?out book) None ?c2 \<in> set (trace (snd ?M))"
        proof (cases "fst ?R")
          case (Inl e3)
          from main_export_failed(2)[OF valid Inl] tr show ?thesis by simp
        next
          case (Inr p)
          from main_export_found[OF valid Inr] tr show ?thesis by auto
        qed
        then have sec: "?second" by blast
        have det: "if ?c2 \<noteq> 0
                   then fst ?M = Inl (RuntimeError (''Command failed with exit code '' @ str_int ?c2))
                        \<and> trace (snd ?M)
                            = ?start @ [Ran (aud_cmd_2 a ?out book) None ?c2, RmTemp tmp]
                   else
                     (case newest_export ?fs2 ?out of
                        Inl e2 \<Rightarrow>
                          fst ?M = Inl e2
                          \<and> trace (snd ?M)
                              = ?start @ [Ran (aud_cmd_2 a ?out book) None 0, RmTemp tmp]
                      | Inr p \<Rightarrow>
                          (\<exists>c. trace (snd ?M)
                                 = ?start @ [Ran (aud_cmd_2 a ?out book) None 0, ?job p,
                                            Ran ?editor (Some tmp) c, RmTemp tmp]))"
        proof (cases "?c2 = 0")
          case False
          with res have r: "fst ?R = Inl (RuntimeError (''Command failed with exit code '' @ str_int ?c2))"
            by simp
          from main_export_failed[OF valid r] tr False show ?thesis by simp
        next
          case zero: True
          show ?thesis
          proof (cases "newest_export ?fs2 ?out")
            case (Inl e2)
            with res zero have r: "fst ?R = Inl e2" by simp
            from main_export_failed[OF valid r] tr zero Inl show ?thesis by simp
          next
            case (Inr p)
            with res zero have r: "fst ?R = Inr p" by simp
            from main_export_found[OF valid r] tr zero Inr show ?thesis by simp
          qed
        qed
        from sec g det failed none b show ?thesis by simp
      qed
    qed
  qed
  show ?thesis
    unfolding Let_def by (rule conjI[OF c1 conjI[OF c2 both]])
qed

theorem main_export_decision_witness:
  "path_exists ex_fs0 (pdf_in ex_args) \<and> path_exists ex_fs0 (audiveris_exe ex_args)
   \<and> path_exists ex_fs0 (musescore_exe ex_args) \<and> path_exists ex_fs0 (plugin_qml ex_args)
   \<and> returncode (fst (ex_tool 0 [''/o/score.mxl'', ''/o/score.pdf'']
                        (aud_cmd_1 ex_args (path_join ex_tmp ''audiveris_out'')) None ex_fs0)) = 0
   \<and> candidates (snd (ex_tool 0 [''/o/score.mxl'', ''/o/score.pdf'']
                        (aud_cmd_1 ex_args (path_join ex_tmp ''audiveris_out'')) None ex_fs0))
        (path_join ex_tmp ''audiveris_out'') = []
   \<and> newest_omr_book (snd (ex_tool 0 [''/o/score.mxl'', ''/o/score.pdf'']
                             (aud_cmd_1 ex_args (path_join ex_tmp ''audiveris_out'')) None ex_fs0))
        (path_join ex_tmp ''audiveris_out'') = Inr ''/tmp/omr_tmp_a1/audiveris_out/score.omr''
   \<and> (\<exists>book c. Ran (aud_cmd_2 ex_args (path_join ex_tmp ''audiveris_out'') book) None c
                  \<in> set (trace (snd (main (ex_tool 0 [''/o/score.mxl'', ''/o/score.pdf''])
                                        ex_tmp ex_args ex_fs0))))
   \<and> trace (snd (main (ex_tool 0 [''/o/score.mxl'', ''/o/score.pdf'']) ex_tmp ex_args ex_fs0))
       = [Mkdir ''/o'', Mkdir ''/o'', MkTemp ''/tmp/omr_tmp_a1'',
          Mkdir ''/tmp/omr_tmp_a1/audiveris_out'',
          Ran [''/opt/audiveris'', ''-batch'', ''-transcribe'', ''-output'',
               ''/tmp/omr_tmp_a1/audiveris_out'', ''/in/score.pdf''] None 0,
          Ran [''/opt/audiveris'', ''-batch'', ''-export'', ''-output'',
               ''/tmp/omr_tmp_a1/audiveris_out'', ''-option'',
               ''org.audiveris.omr.sheet.BookManager.useOpus=true'',
               ''/tmp/omr_tmp_a1/audiveris_out/score.omr''] None 0,
          WroteJob ''/tmp/omr_tmp_a1/job.json''
            \<lparr>job_in = ''/tmp/omr_tmp_a1/audiveris_out/score.mxl'',
               job_plugin = ''/opt/solfa.qml'',
               job_out = [''/o/score.mxl'', ''/o/score.pdf'']\<rparr>,
          Ran [''/opt/mscore'', ''-j'', ''/tmp/omr_tmp_a1/job.json''] (Some ''/tmp/omr_tmp_a1'') 0,
          RmTemp ''/tmp/omr_tmp_a1'']"
proof -
  let ?T = "ex_tool 0 [''/o/score.mxl'', ''/o/score.pdf'']"
  let ?out = "path_join ex_tmp ''audiveris_out''"
  let ?fs1 = "snd (?T (aud_cmd_1 ex_args ?out) None ex_fs0)"
  have v1: "path_exists ex_fs0 (pdf_in ex_args)" by code_simp
  have v2: "path_exists ex_fs0 (audiveris_exe ex_args)" by code_simp
  have v3: "path_exists ex_fs0 (musescore_exe ex_args)" by code_simp
  have v4: "path_exists ex_fs0 (plugin_qml ex_args)" by code_simp
  have ok: "returncode (fst (?T (aud_cmd_1 ex_args ?out) None ex_fs0)) = 0" by code_simp
  have n: "candidates ?fs1 ?out = []" by code_simp
  have b: "newest_omr_book ?fs1 ?out = Inr ''/tmp/omr_tmp_a1/audiveris_out/score.omr''"
    by code_simp
  have t: "trace (snd (main ?T ex_tmp ex_args ex_fs0))
       = [Mkdir ''/o'', Mkdir ''/o'', MkTemp ''/tmp/omr_tmp_a1'',
          Mkdir ''/tmp/omr_tmp_a1/audiveris_out'',
          Ran [''/opt/audiveris'', ''-batch'', ''-transcribe'', ''-output'',
               ''/tmp/omr_tmp_a1/audiveris_out'', ''/in/score.pdf''] None 0,
          Ran [''/opt/audiveris'', ''-batch'', ''-export'', ''-output'',
               ''/tmp/omr_tmp_a1/audiveris_out'', ''-option'',
               ''org.audiveris.omr.sheet.BookManager.useOpus=true'',
               ''/tmp/omr_tmp_a1/audiveris_out/score.omr''] None 0,
          WroteJob ''/tmp/omr_tmp_a1/job.json''
            \<lparr>job_in = ''/tmp/omr_tmp_a1/audiveris_out/score.mxl'',
               job_plugin = ''/opt/solfa.qml'',
               job_out = [''/o/score.mxl'', ''/o/score.pdf'']\<rparr>,
          Ran [''/opt/mscore'', ''-j'', ''/tmp/omr_tmp_a1/job.json''] (Some ''/tmp/omr_tmp_a1'') 0,
          RmTemp ''/tmp/omr_tmp_a1'']"
    by code_simp
  note T = main_export_decision[of ex_fs0 ex_args ?T ex_tmp, OF v1 v2 v3 v4 ok, unfolded Let_def]
  note I = T[THEN conjunct2, THEN conjunct2, THEN conjunct1]
  from b have "\<exists>book. newest_omr_book ?fs1 ?out = Inr book" by (rule exI)
  with I n have s: "\<exists>book c. Ran (aud_cmd_2 ex_args ?out book) None c
                     \<in> set (trace (snd (main ?T ex_tmp ex_args ex_fs0)))"
    by (rule_tac iffD2) (assumption, rule conjI)
  from v1 v2 v3 v4 ok n b s t show ?thesis by (intro conjI)
qed

end
